theory Spec2Isabelle
  imports Main "HOL-Library.Sublist"
begin

section \<open>Data model\<close>

text \<open>
  The Free Tier limits are module-level constants of \<^verbatim>\<open>setup_oci_terraform.py\<close>.
  Python integers are unbounded, so every quantity is an \<^typ>\<open>int\<close>.
\<close>

definition FREE_TIER_MAX_AMD_INSTANCES :: int where
  "FREE_TIER_MAX_AMD_INSTANCES = 2"

definition FREE_TIER_MAX_ARM_OCPUS :: int where
  "FREE_TIER_MAX_ARM_OCPUS = 4"

definition FREE_TIER_MAX_ARM_MEMORY_GB :: int where
  "FREE_TIER_MAX_ARM_MEMORY_GB = 24"

definition FREE_TIER_MAX_STORAGE_GB :: int where
  "FREE_TIER_MAX_STORAGE_GB = 200"

definition FREE_TIER_MIN_BOOT_VOLUME_GB :: int where
  "FREE_TIER_MIN_BOOT_VOLUME_GB = 47"

text \<open>
  \<^verbatim>\<open>ExistingResource.additional_info\<close> is a \<^verbatim>\<open>Dict[str, Any]\<close>. The inventory stores
  numbers under the keys \<^verbatim>\<open>ocpus\<close>, \<^verbatim>\<open>memory\<close> and \<^verbatim>\<open>size\<close> and strings under
  \<^verbatim>\<open>shape\<close>, \<^verbatim>\<open>vcn_id\<close>, \<^verbatim>\<open>cidr\<close>, \<^verbatim>\<open>public_ip\<close> and \<^verbatim>\<open>private_ip\<close>; the dictionary
  is split by value type into a numeric and a textual map.
\<close>

record additional_info =
  numeric :: "string \<rightharpoonup> int"
  textual :: "string \<rightharpoonup> string"

record ExistingResource =
  res_id :: string
  name :: string
  state :: string
  info :: additional_info

text \<open>
  Each global \<^verbatim>\<open>existing_*\<close> dictionary is kept as the list of its items in insertion
  order (the order in which Python iterates over it); \<^verbatim>\<open>len\<close> of the dictionary is the
  length of that list.
\<close>

type_synonym resources = "(string \<times> ExistingResource) list"

record inventory =
  existing_vcns :: resources
  existing_subnets :: resources
  existing_internet_gateways :: resources
  existing_route_tables :: resources
  existing_security_lists :: resources
  existing_amd_instances :: resources
  existing_arm_instances :: resources
  existing_boot_volumes :: resources
  existing_block_volumes :: resources

definition dict_values :: "resources \<Rightarrow> ExistingResource list" where
  "dict_values d = map snd d"

text \<open>\<^verbatim>\<open>additional_info.get(key, 0)\<close> on a numeric attribute.\<close>

definition get_num :: "ExistingResource \<Rightarrow> string \<Rightarrow> int" where
  "get_num r key = (case numeric (info r) key of None \<Rightarrow> 0 | Some v \<Rightarrow> v)"

text \<open>\<^verbatim>\<open>additional_info.get(key)\<close> on a textual attribute (\<^verbatim>\<open>None\<close> when absent).\<close>

definition get_text :: "ExistingResource \<Rightarrow> string \<Rightarrow> string option" where
  "get_text r key = textual (info r) key"

text \<open>Python's \<^verbatim>\<open>sum\<close>: a left fold from 0.\<close>

definition py_sum :: "int list \<Rightarrow> int" where
  "py_sum xs = foldl (+) 0 xs"

section \<open>Quota calculator\<close>

record available =
  amd_instances :: int
  arm_ocpus :: int
  arm_memory :: int
  storage :: int
  used_arm_instances :: int

definition calculate_available_resources :: "inventory \<Rightarrow> available" where
  "calculate_available_resources ivt =
     (let used_amd = int (length (existing_amd_instances ivt));
          used_arm_ocpus =
            py_sum (map (\<lambda>inst. get_num inst ''ocpus'') (dict_values (existing_arm_instances ivt)));
          used_arm_memory =
            py_sum (map (\<lambda>inst. get_num inst ''memory'') (dict_values (existing_arm_instances ivt)));
          used_storage =
            py_sum (map (\<lambda>vol. get_num vol ''size'') (dict_values (existing_boot_volumes ivt))) +
            py_sum (map (\<lambda>vol. get_num vol ''size'') (dict_values (existing_block_volumes ivt)))
      in \<lparr> amd_instances = FREE_TIER_MAX_AMD_INSTANCES - used_amd,
           arm_ocpus = FREE_TIER_MAX_ARM_OCPUS - used_arm_ocpus,
           arm_memory = FREE_TIER_MAX_ARM_MEMORY_GB - used_arm_memory,
           storage = FREE_TIER_MAX_STORAGE_GB - used_storage,
           used_arm_instances = int (length (existing_arm_instances ivt)) \<rparr>)"

section \<open>Configuration planner\<close>

text \<open>
  A planner strategy is modelled by what it does to the global \<^verbatim>\<open>instance_config\<close>:
  it takes the inventory, the OCI configuration and the configuration so far, and
  returns the new configuration. The progress messages of the planner are left out.
\<close>

record OciConfig =
  tenancy_ocid :: string
  user_ocid :: string
  region :: string
  fingerprint :: string
  availability_domain :: string
  ubuntu_image_ocid :: string
  ubuntu_arm_flex_image_ocid :: string
  ssh_public_key :: string
  auth_method :: string

record InstanceConfig =
  amd_micro_instance_count :: int
  amd_micro_boot_volume_size_gb :: int
  arm_flex_instance_count :: int
  arm_flex_ocpus_per_instance :: "int list"
  arm_flex_memory_per_instance :: "int list"
  arm_flex_boot_volume_size_gb :: "int list"
  arm_flex_block_volumes :: "int list"
  amd_micro_hostnames :: "string list"
  arm_flex_hostnames :: "string list"

text \<open>The dataclass defaults: the value of the global \<^verbatim>\<open>instance_config\<close> at start-up.\<close>

definition default_instance_config :: InstanceConfig where
  "default_instance_config =
     \<lparr> amd_micro_instance_count = 0, amd_micro_boot_volume_size_gb = 50,
       arm_flex_instance_count = 0, arm_flex_ocpus_per_instance = [],
       arm_flex_memory_per_instance = [], arm_flex_boot_volume_size_gb = [],
       arm_flex_block_volumes = [], amd_micro_hostnames = [], arm_flex_hostnames = [] \<rparr>"

text \<open>Python's \<^verbatim>\<open>str\<close> on an integer, used by the default hostnames.\<close>

fun str_nat :: "nat \<Rightarrow> string" where
  "str_nat n =
     (if n < 10 then [''0123456789'' ! n]
      else str_nat (n div 10) @ [''0123456789'' ! (n mod 10)])"

declare str_nat.simps [simp del]

definition str_int :: "int \<Rightarrow> string" where
  "str_int i = (if i < 0 then CHR ''-'' # str_nat (nat (- i)) else str_nat (nat i))"

text \<open>\<^verbatim>\<open>range(1, n + 1)\<close>.\<close>

definition range1 :: "int \<Rightarrow> int list" where
  "range1 n = [1..n]"

text \<open>\<^verbatim>\<open>[v] * n\<close> for a list of one element.\<close>

definition repeat :: "'a \<Rightarrow> nat \<Rightarrow> 'a list" where
  "repeat v n = replicate n v"

subsection \<open>Strategy 1: from existing instances\<close>

definition configure_from_existing_instances :: "inventory \<Rightarrow> InstanceConfig \<Rightarrow> InstanceConfig" where
  "configure_from_existing_instances ivt cfg =
     (let cfg1 = cfg\<lparr>
            amd_micro_instance_count := int (length (existing_amd_instances ivt)),
            amd_micro_hostnames := map name (dict_values (existing_amd_instances ivt)),
            arm_flex_instance_count := int (length (existing_arm_instances ivt)),
            arm_flex_hostnames := map name (dict_values (existing_arm_instances ivt)),
            arm_flex_ocpus_per_instance :=
              map (\<lambda>inst. get_num inst ''ocpus'') (dict_values (existing_arm_instances ivt)),
            arm_flex_memory_per_instance :=
              map (\<lambda>inst. get_num inst ''memory'') (dict_values (existing_arm_instances ivt)),
            arm_flex_boot_volume_size_gb := repeat 50 (length (existing_arm_instances ivt)),
            arm_flex_block_volumes := repeat 0 (length (existing_arm_instances ivt)) \<rparr>;
          cfg2 =
            (if amd_micro_instance_count cfg1 = 0 \<and> arm_flex_instance_count cfg1 = 0
             then cfg1\<lparr>
                    amd_micro_instance_count := 0,
                    arm_flex_instance_count := 1,
                    arm_flex_ocpus_per_instance := [4],
                    arm_flex_memory_per_instance := [24],
                    arm_flex_boot_volume_size_gb := [200],
                    arm_flex_hostnames := [''arm-instance-1''],
                    arm_flex_block_volumes := [0] \<rparr>
             else cfg1)
      in cfg2\<lparr> amd_micro_boot_volume_size_gb := 50 \<rparr>)"

subsection \<open>Strategy 3: custom (interactive)\<close>

text \<open>
  \<^verbatim>\<open>IntPrompt.ask\<close> and \<^verbatim>\<open>Prompt.ask\<close> return what the user typed, or the prompt's
  default when the user just presses return. A user's answer is \<^term>\<open>Some v\<close> or
  \<^term>\<open>None\<close> (take the default). Every prompt of one run is identified by its label and
  the instance number it is asked for, so the answers of a run are a record of answers,
  the per-instance ones indexed by the loop variable.
\<close>

definition ask :: "'a option \<Rightarrow> 'a \<Rightarrow> 'a" where
  "ask answer dflt = (case answer of None \<Rightarrow> dflt | Some v \<Rightarrow> v)"

record arm_answers =
  hostname_answer :: "string option"
  ocpus_answer :: "int option"
  memory_answer :: "int option"
  boot_answer :: "int option"

record custom_answers =
  amd_count_answer :: "int option"
  amd_boot_answer :: "int option"
  amd_hostname_answer :: "int \<Rightarrow> string option"
  arm_count_answer :: "int option"
  arm_answer :: "int \<Rightarrow> arm_answers"

text \<open>The loop \<^verbatim>\<open>for i in range(1, amd_micro_instance_count + 1)\<close> over hostnames.\<close>

fun amd_hostname_loop :: "(int \<Rightarrow> string option) \<Rightarrow> int list \<Rightarrow> InstanceConfig \<Rightarrow> InstanceConfig" where
  "amd_hostname_loop ans [] cfg = cfg"
| "amd_hostname_loop ans (i # rest) cfg =
     (let hostname = ask (ans i) (''amd-instance-'' @ str_int i)
      in amd_hostname_loop ans rest
           (cfg\<lparr> amd_micro_hostnames := amd_micro_hostnames cfg @ [hostname] \<rparr>))"

text \<open>
  One pass through the body of the loop
  \<^verbatim>\<open>for i in range(1, arm_flex_instance_count + 1)\<close>. The loop state is the two
  running counters \<^verbatim>\<open>remaining_ocpus\<close> and \<^verbatim>\<open>remaining_memory\<close> and the
  configuration being filled.
\<close>

definition arm_instance_body ::
  "arm_answers \<Rightarrow> int \<Rightarrow> int \<times> int \<times> InstanceConfig \<Rightarrow> int \<times> int \<times> InstanceConfig" where
  "arm_instance_body a i st =
     (case st of (remaining_ocpus, remaining_memory, cfg) \<Rightarrow>
       (let hostname = ask (hostname_answer a) (''arm-instance-'' @ str_int i);
            ocpus = max 1 (min (ask (ocpus_answer a) remaining_ocpus) remaining_ocpus);
            max_memory = min (ocpus * 6) remaining_memory;
            memory = max 1 (min (ask (memory_answer a) max_memory) max_memory);
            boot = max 50 (min (ask (boot_answer a) 50) 200)
        in (remaining_ocpus - ocpus, remaining_memory - memory,
            cfg\<lparr> arm_flex_hostnames := arm_flex_hostnames cfg @ [hostname],
                 arm_flex_ocpus_per_instance := arm_flex_ocpus_per_instance cfg @ [ocpus],
                 arm_flex_memory_per_instance := arm_flex_memory_per_instance cfg @ [memory],
                 arm_flex_boot_volume_size_gb := arm_flex_boot_volume_size_gb cfg @ [boot],
                 arm_flex_block_volumes := arm_flex_block_volumes cfg @ [0] \<rparr>)))"

fun arm_instance_loop ::
  "(int \<Rightarrow> arm_answers) \<Rightarrow> int list \<Rightarrow> int \<times> int \<times> InstanceConfig \<Rightarrow> int \<times> int \<times> InstanceConfig" where
  "arm_instance_loop ans [] st = st"
| "arm_instance_loop ans (i # rest) st = arm_instance_loop ans rest (arm_instance_body (ans i) i st)"

definition configure_custom_instances ::
  "inventory \<Rightarrow> OciConfig \<Rightarrow> custom_answers \<Rightarrow> InstanceConfig \<Rightarrow> InstanceConfig" where
  "configure_custom_instances ivt oci ans cfg =
     (let avail = calculate_available_resources ivt;
          amd_count = max 0 (min (ask (amd_count_answer ans) 0) (amd_instances avail));
          cfg1 = cfg\<lparr> amd_micro_instance_count := amd_count, amd_micro_hostnames := [] \<rparr>;
          cfg2 =
            (if amd_micro_instance_count cfg1 > 0
             then amd_hostname_loop (amd_hostname_answer ans)
                    (range1 (amd_micro_instance_count cfg1))
                    (cfg1\<lparr> amd_micro_boot_volume_size_gb :=
                             max 50 (min (ask (amd_boot_answer ans) 50) 100) \<rparr>)
             else cfg1\<lparr> amd_micro_boot_volume_size_gb := 50 \<rparr>)
      in if ubuntu_arm_flex_image_ocid oci \<noteq> [] \<and> arm_ocpus avail > 0
         then
           (let arm_count = max 0 (min (ask (arm_count_answer ans) 1) 4);
                cfg3 = cfg2\<lparr> arm_flex_instance_count := arm_count,
                              arm_flex_hostnames := [],
                              arm_flex_ocpus_per_instance := [],
                              arm_flex_memory_per_instance := [],
                              arm_flex_boot_volume_size_gb := [],
                              arm_flex_block_volumes := [] \<rparr>
            in snd (snd (arm_instance_loop (arm_answer ans)
                           (range1 (arm_flex_instance_count cfg3))
                           (arm_ocpus avail, arm_memory avail, cfg3))))
         else cfg2\<lparr> arm_flex_instance_count := 0,
                     arm_flex_ocpus_per_instance := [],
                     arm_flex_memory_per_instance := [],
                     arm_flex_boot_volume_size_gb := [],
                     arm_flex_block_volumes := [],
                     arm_flex_hostnames := [] \<rparr>)"

subsection \<open>Strategy 4: maximum Free Tier utilisation\<close>

definition configure_maximum_free_tier ::
  "inventory \<Rightarrow> OciConfig \<Rightarrow> InstanceConfig \<Rightarrow> InstanceConfig" where
  "configure_maximum_free_tier ivt oci cfg =
     (let avail = calculate_available_resources ivt;
          cfg1 = cfg\<lparr> amd_micro_instance_count := amd_instances avail,
                       amd_micro_boot_volume_size_gb := 50 \<rparr>;
          cfg2 = cfg1\<lparr> amd_micro_hostnames :=
                          map (\<lambda>i. ''amd-instance-'' @ str_int i)
                            (range1 (amd_micro_instance_count cfg1)) \<rparr>
      in if ubuntu_arm_flex_image_ocid oci \<noteq> [] \<and> arm_ocpus avail > 0
         then
           (let used_by_amd = amd_micro_instance_count cfg2 * amd_micro_boot_volume_size_gb cfg2;
                remaining_storage0 = storage avail - used_by_amd;
                remaining_storage =
                  (if remaining_storage0 < FREE_TIER_MIN_BOOT_VOLUME_GB
                   then FREE_TIER_MIN_BOOT_VOLUME_GB else remaining_storage0)
            in cfg2\<lparr> arm_flex_instance_count := 1,
                      arm_flex_ocpus_per_instance := [arm_ocpus avail],
                      arm_flex_memory_per_instance := [arm_memory avail],
                      arm_flex_boot_volume_size_gb := [remaining_storage],
                      arm_flex_hostnames := [''arm-instance-1''],
                      arm_flex_block_volumes := [0] \<rparr>)
         else cfg2\<lparr> arm_flex_instance_count := 0,
                     arm_flex_ocpus_per_instance := [],
                     arm_flex_memory_per_instance := [],
                     arm_flex_boot_volume_size_gb := [],
                     arm_flex_hostnames := [],
                     arm_flex_block_volumes := [] \<rparr>)"

subsection \<open>Strategy 2: from the saved \<^verbatim>\<open>variables.tf\<close>\<close>

text \<open>
  \<^verbatim>\<open>load_existing_config\<close> recovers the plan from the text of \<^verbatim>\<open>variables.tf\<close> with
  regular expressions. Text is modelled as ASCII: \<^verbatim>\<open>\s\<close> and \<^verbatim>\<open>str.strip\<close> see the
  ASCII whitespace characters, \<^verbatim>\<open>\d\<close> and \<^verbatim>\<open>str.isdigit\<close> the digits 0 to 9.
\<close>

definition is_space :: "char \<Rightarrow> bool" where
  "is_space c \<longleftrightarrow> c \<in> set [CHR 0x09, CHR 0x0A, CHR 0x0B, CHR 0x0C, CHR 0x0D,
                              CHR 0x1C, CHR 0x1D, CHR 0x1E, CHR 0x1F, CHR '' '']"

definition is_digit :: "char \<Rightarrow> bool" where
  "is_digit c \<longleftrightarrow> c \<in> set ''0123456789''"

text \<open>\<^verbatim>\<open>int(s)\<close> on a string of decimal digits.\<close>

definition digit_value :: "char \<Rightarrow> int" where
  "digit_value c = int (of_char c) - 48"

definition py_int :: "string \<Rightarrow> int" where
  "py_int ds = foldl (\<lambda>acc c. 10 * acc + digit_value c) 0 ds"

text \<open>\<^verbatim>\<open>s.strip()\<close>, \<^verbatim>\<open>s.strip(ch)\<close>, \<^verbatim>\<open>s.isdigit()\<close> and \<^verbatim>\<open>s.split(",")\<close>.\<close>

definition strip :: "string \<Rightarrow> string" where
  "strip s = rev (dropWhile is_space (rev (dropWhile is_space s)))"

definition strip_char :: "char \<Rightarrow> string \<Rightarrow> string" where
  "strip_char ch s = rev (dropWhile (\<lambda>c. c = ch) (rev (dropWhile (\<lambda>c. c = ch) s)))"

definition isdigit :: "string \<Rightarrow> bool" where
  "isdigit s \<longleftrightarrow> s \<noteq> [] \<and> list_all is_digit s"

fun split_on :: "char \<Rightarrow> string \<Rightarrow> string list" where
  "split_on sep [] = [] # []"
| "split_on sep (c # cs) =
     (if c = sep then [] # split_on sep cs
      else (case split_on sep cs of [] \<Rightarrow> [c] # [] | part # parts \<Rightarrow> (c # part) # parts))"

text \<open>
  The pattern \<^verbatim>\<open>key\s*=\s*\<close>, anchored at the head of the text: the rest of the text
  after the pattern, when it matches. The three parts of the pattern accept disjoint
  characters, so the greedy match is the only one.
\<close>

definition match_key_equals :: "string \<Rightarrow> string \<Rightarrow> string option" where
  "match_key_equals key s =
     (if prefix key s
      then (case dropWhile is_space (drop (length key) s) of
              [] \<Rightarrow> None
            | c # rest \<Rightarrow> if c = CHR ''='' then Some (dropWhile is_space rest) else None)
      else None)"

text \<open>\<^verbatim>\<open>key\s*=\s*(\d+)\<close> anchored at the head of the text: group 1.\<close>

definition match_int_at :: "string \<Rightarrow> string \<Rightarrow> string option" where
  "match_int_at key s =
     (case match_key_equals key s of
        None \<Rightarrow> None
      | Some rest \<Rightarrow>
          (let digits = takeWhile is_digit rest in if digits = [] then None else Some digits))"

text \<open>\<^verbatim>\<open>key\s*=\s*\[([^\]]+)\]\<close> anchored at the head of the text: group 1.\<close>

definition match_array_at :: "string \<Rightarrow> string \<Rightarrow> string option" where
  "match_array_at key s =
     (case match_key_equals key s of
        None \<Rightarrow> None
      | Some rest \<Rightarrow>
          (case rest of
             [] \<Rightarrow> None
           | c # body \<Rightarrow>
               if c = CHR ''[''
               then (let grp = takeWhile (\<lambda>x. x \<noteq> CHR '']'') body
                     in if grp \<noteq> [] \<and> length grp < length body then Some grp else None)
               else None))"

text \<open>\<^verbatim>\<open>re.search\<close>: the match at the leftmost position where the pattern matches.\<close>

fun re_search :: "(string \<Rightarrow> string option) \<Rightarrow> string \<Rightarrow> string option" where
  "re_search match_at [] = match_at []"
| "re_search match_at (c # cs) =
     (case match_at (c # cs) of Some g \<Rightarrow> Some g | None \<Rightarrow> re_search match_at cs)"

definition parse_int_list :: "string \<Rightarrow> int list" where
  "parse_int_list grp =
     map (\<lambda>x. py_int (strip x)) (filter (\<lambda>x. isdigit (strip x)) (split_on CHR '','' grp))"

definition parse_hostnames :: "string \<Rightarrow> string list" where
  "parse_hostnames grp =
     map (\<lambda>x. strip_char (CHR 0x27) (strip_char CHR ''\"'' (strip x))) (split_on CHR '','' grp)"

text \<open>
  The file is \<^term>\<open>None\<close> when \<^verbatim>\<open>variables.tf\<close> does not exist. The result is the
  returned flag and the updated \<^verbatim>\<open>instance_config\<close>. A list whose pattern does not match
  keeps the value it had.
\<close>

definition load_existing_config :: "string option \<Rightarrow> InstanceConfig \<Rightarrow> bool \<times> InstanceConfig" where
  "load_existing_config variables_tf cfg =
     (case variables_tf of
        None \<Rightarrow> (False, cfg)
      | Some content \<Rightarrow>
         (let cfg1 = cfg\<lparr> amd_micro_instance_count :=
                 (case re_search (match_int_at ''amd_micro_instance_count'') content of
                    Some g \<Rightarrow> py_int g | None \<Rightarrow> 0) \<rparr>;
              cfg2 = cfg1\<lparr> amd_micro_boot_volume_size_gb :=
                 (case re_search (match_int_at ''amd_micro_boot_volume_size_gb'') content of
                    Some g \<Rightarrow> py_int g | None \<Rightarrow> 50) \<rparr>;
              cfg3 = cfg2\<lparr> arm_flex_instance_count :=
                 (case re_search (match_int_at ''arm_flex_instance_count'') content of
                    Some g \<Rightarrow> py_int g | None \<Rightarrow> 0) \<rparr>;
              cfg4 = (case re_search (match_array_at ''arm_flex_ocpus_per_instance'') content of
                    Some g \<Rightarrow> cfg3\<lparr> arm_flex_ocpus_per_instance := parse_int_list g \<rparr>
                  | None \<Rightarrow> cfg3);
              cfg5 = (case re_search (match_array_at ''arm_flex_memory_per_instance'') content of
                    Some g \<Rightarrow> cfg4\<lparr> arm_flex_memory_per_instance := parse_int_list g \<rparr>
                  | None \<Rightarrow> cfg4);
              cfg6 = (case re_search (match_array_at ''arm_flex_boot_volume_size_gb'') content of
                    Some g \<Rightarrow> cfg5\<lparr> arm_flex_boot_volume_size_gb := parse_int_list g \<rparr>
                  | None \<Rightarrow> cfg5);
              cfg7 = (case re_search (match_array_at ''amd_micro_hostnames'') content of
                    Some g \<Rightarrow> cfg6\<lparr> amd_micro_hostnames := parse_hostnames g \<rparr>
                  | None \<Rightarrow> cfg6);
              cfg8 = (case re_search (match_array_at ''arm_flex_hostnames'') content of
                    Some g \<Rightarrow> cfg7\<lparr> arm_flex_hostnames := parse_hostnames g \<rparr>
                  | None \<Rightarrow> cfg7)
          in (True, cfg8)))"

text \<open>
  The parallel-array invariant of an instance plan: the four per-instance ARM lists have
  as many entries as there are ARM instances.
\<close>

definition arm_arrays_parallel :: "InstanceConfig \<Rightarrow> bool" where
  "arm_arrays_parallel cfg \<longleftrightarrow>
     int (length (arm_flex_ocpus_per_instance cfg)) = arm_flex_instance_count cfg \<and>
     int (length (arm_flex_memory_per_instance cfg)) = arm_flex_instance_count cfg \<and>
     int (length (arm_flex_boot_volume_size_gb cfg)) = arm_flex_instance_count cfg \<and>
     int (length (arm_flex_hostnames cfg)) = arm_flex_instance_count cfg"

section \<open>Effects: commands, sleeping, console output\<close>

text \<open>
  The reconciliation driver talks to Terraform through \<^verbatim>\<open>run_command\<close>, waits with
  \<^verbatim>\<open>time.sleep\<close> and prints to the console. A run is described by the list of events it
  produces, in order. A Terraform resource address is kept structured:
  \<^verbatim>\<open>oci_core_vcn.main\<close>, \<^verbatim>\<open>oci_core_instance.amd[i]\<close>, \<^verbatim>\<open>oci_core_instance.arm[i]\<close>,
  \<^verbatim>\<open>oci_core_internet_gateway.main\<close>, \<^verbatim>\<open>oci_core_subnet.main\<close>,
  \<^verbatim>\<open>oci_core_default_route_table.main\<close> and \<^verbatim>\<open>oci_core_default_security_list.main\<close>.
\<close>

datatype tf_address =
  VcnMain
| AmdInstance nat
| ArmInstance nat
| InternetGatewayMain
| SubnetMain
| DefaultRouteTableMain
| DefaultSecurityListMain

text \<open>
  The command lines: \<^verbatim>\<open>terraform init -input=false\<close>,
  \<^verbatim>\<open>terraform state show <address>\<close>, \<^verbatim>\<open>terraform import <address> <id>\<close> and
  \<^verbatim>\<open>terraform apply -input=false tfplan\<close>.
\<close>

datatype command =
  TerraformInit
| TerraformStateShow tf_address
| TerraformImport tf_address string
| TerraformApply

record CompletedProcess =
  returncode :: int
  stdout :: string
  stderr :: string

text \<open>
  The exceptions that occur: \<^verbatim>\<open>subprocess.CalledProcessError\<close> raised by the retried
  helpers on a non-zero exit status, any exception that \<^verbatim>\<open>run_command\<close> re-raises from
  \<^verbatim>\<open>subprocess.run\<close>, the \<^verbatim>\<open>TypeError\<close> of \<^verbatim>\<open>raise None\<close>, and the
  \<^verbatim>\<open>ValueError\<close> of \<^verbatim>\<open>time.sleep\<close> on a negative duration.
\<close>

datatype error =
  CalledProcessError int
| SubprocessFailure string
| TypeError
| ValueError

text \<open>
  The console functions \<^verbatim>\<open>print_status\<close>, \<^verbatim>\<open>print_success\<close>, \<^verbatim>\<open>print_warning\<close>,
  \<^verbatim>\<open>print_error\<close>, \<^verbatim>\<open>print_debug\<close>, \<^verbatim>\<open>console.print\<close> and \<^verbatim>\<open>print_header\<close>.
\<close>

datatype level = INFO | SUCCESS | WARNING | ERROR | DBG | PLAIN | HEADER

text \<open>
  \<^term>\<open>Called f r\<close> records one call of the retried function \<open>f\<close>, with the exception it
  raised, if any.
\<close>

datatype event =
  Ran command "error + CompletedProcess"
| Called string "error option"
| Slept int
| Printed level string

datatype json_outcome = JsonValue | JSONDecodeError | JsonOtherError

text \<open>
  What the program cannot decide by itself is a parameter: the outcome of a command (which
  may depend on everything that happened before), Python's \<^verbatim>\<open>str\<close> of an exception,
  whether \<^verbatim>\<open>json.loads\<close> accepts a text, and the settings read from the environment.
\<close>

record world =
  run :: "event list \<Rightarrow> command \<Rightarrow> error + CompletedProcess"
  exception_text :: "error \<Rightarrow> string"
  json_loads :: "string \<Rightarrow> json_outcome"
  DEBUG :: bool
  RETRY_MAX_ATTEMPTS :: int
  RETRY_BASE_DELAY :: int

text \<open>
  An action takes the events so far and yields its result, or the exception it raises,
  together with the events it adds.
\<close>

type_synonym 'a action = "event list \<Rightarrow> (error + 'a) \<times> event list"

definition pure :: "'a \<Rightarrow> 'a action" where
  "pure x hist = (Inr x, [])"

definition and_then :: "'a action \<Rightarrow> ('a \<Rightarrow> 'b action) \<Rightarrow> 'b action" where
  "and_then m f hist =
     (case m hist of
        (Inl e, evs) \<Rightarrow> (Inl e, evs)
      | (Inr x, evs) \<Rightarrow> (case f x (hist @ evs) of (r, evs') \<Rightarrow> (r, evs @ evs')))"

text \<open>
  \<^verbatim>\<open>run_command\<close> with \<^verbatim>\<open>check=False\<close> and no timeout: the result of the command, or
  the exception of \<^verbatim>\<open>subprocess.run\<close>, which is raised again after a debug message
  (\<^verbatim>\<open>print_debug\<close> prints when \<^verbatim>\<open>DEBUG\<close> is set).
\<close>

definition debug_message :: "world \<Rightarrow> error + CompletedProcess \<Rightarrow> event list" where
  "debug_message w r =
     (case r of
        Inl e \<Rightarrow> if DEBUG w then [Printed DBG (''Command execution error: '' @ exception_text w e)]
                 else []
      | Inr result \<Rightarrow> [])"

definition run_command :: "world \<Rightarrow> command \<Rightarrow> CompletedProcess action" where
  "run_command w cmd hist =
     (run w hist cmd, Ran cmd (run w hist cmd) # debug_message w (run w hist cmd))"

definition console :: "level \<Rightarrow> string \<Rightarrow> unit action" where
  "console lvl msg hist = (Inr (), [Printed lvl msg])"

definition sleep :: "int \<Rightarrow> unit action" where
  "sleep secs hist = (if secs < 0 then (Inl ValueError, []) else (Inr (), [Slept secs]))"

section \<open>Capacity signal\<close>

text \<open>
  \<^verbatim>\<open>str.lower\<close> on ASCII text and the substring test \<^verbatim>\<open>term in text\<close>. The source
  writes the test
  \<^verbatim>\<open>any(term in text.lower() for term in ["out of capacity", ...])\<close>
  out in three places; it is one definition here.
\<close>

definition lower_char :: "char \<Rightarrow> char" where
  "lower_char c =
     (case map_of (zip ''ABCDEFGHIJKLMNOPQRSTUVWXYZ'' ''abcdefghijklmnopqrstuvwxyz'') c of
        None \<Rightarrow> c | Some l \<Rightarrow> l)"

definition lower :: "string \<Rightarrow> string" where
  "lower s = map lower_char s"

fun str_in :: "string \<Rightarrow> string \<Rightarrow> bool" where
  "str_in sub [] = (sub = [])"
| "str_in sub (c # cs) = (prefix sub (c # cs) \<or> str_in sub cs)"

definition capacity_terms :: "string list" where
  "capacity_terms =
     [''out of capacity'', ''out of host capacity'', ''outofcapacity'', ''outofhostcapacity'']"

definition out_of_capacity :: "string \<Rightarrow> bool" where
  "out_of_capacity text = list_ex (\<lambda>t. str_in t (lower text)) capacity_terms"

section \<open>Retry with backoff\<close>

text \<open>What one pass through a loop body ends with.\<close>

datatype ('a, 's) flow =
  Return "error + 'a"
| Break 's
| Continue 's

text \<open>
  The body of the \<^verbatim>\<open>while attempt <= max_attempts\<close> loop of \<^verbatim>\<open>retry_with_backoff\<close>.
  \<^term>\<open>Return\<close> leaves the function (with a value, or with the exception of
  \<^verbatim>\<open>time.sleep\<close>), \<^term>\<open>Break\<close> is the \<^verbatim>\<open>break\<close>, \<^term>\<open>Continue\<close> goes round
  again after \<^verbatim>\<open>attempt += 1\<close>; the last two carry the loop's variable
  \<^verbatim>\<open>last_error\<close>.
\<close>

definition retry_body ::
  "world \<Rightarrow> string \<Rightarrow> 'a action \<Rightarrow> int \<Rightarrow> int \<Rightarrow> nat \<Rightarrow> event list \<Rightarrow> ('a, error) flow \<times> event list" where
  "retry_body w fname func max_attempts base_delay attempt hist =
     (let ev0 = [Printed INFO (''Attempt '' @ str_int (int attempt) @ ''/'' @ str_int max_attempts
                               @ '': '' @ fname)]
      in case func (hist @ ev0) of
           (Inr result, ev1) \<Rightarrow> (Return (Inr result), ev0 @ ev1 @ [Called fname None])
         | (Inl e, ev1) \<Rightarrow>
            (let error_str = exception_text w e;
                 ev2 = ev0 @ ev1 @ [Called fname (Some e)] @
                   [if out_of_capacity error_str
                    then Printed WARNING (''Detected 'Out of Capacity' condition (attempt ''
                                          @ str_int (int attempt) @ '').'')
                    else Printed WARNING (''Command failed: '' @ error_str)]
             in if int attempt < max_attempts
                then (let sleep_time = base_delay * 2 ^ (attempt - 1);
                          ev3 = ev2 @ [Printed INFO (''Retrying in '' @ str_int sleep_time @ ''s...'')]
                      in if sleep_time < 0 then (Return (Inl ValueError), ev3)
                         else (Continue e, ev3 @ [Slept sleep_time]))
                else (Break e, ev2)))"

text \<open>After the loop: \<^verbatim>\<open>print_error(...)\<close> and \<^verbatim>\<open>raise last_error\<close>.\<close>

definition retry_exhausted :: "int \<Rightarrow> error option \<Rightarrow> (error + 'a) \<times> event list" where
  "retry_exhausted max_attempts last_error =
     (Inl (case last_error of None \<Rightarrow> TypeError | Some e \<Rightarrow> e),
      [Printed ERROR (''Command failed after '' @ str_int max_attempts @ '' attempts'')])"

function retry_loop ::
  "world \<Rightarrow> string \<Rightarrow> 'a action \<Rightarrow> int \<Rightarrow> int \<Rightarrow> nat \<Rightarrow> error option \<Rightarrow> event list
   \<Rightarrow> (error + 'a) \<times> event list" where
  "retry_loop w fname func max_attempts base_delay attempt last_error hist =
     (if int attempt \<le> max_attempts
      then (case retry_body w fname func max_attempts base_delay attempt hist of
              (Return r, evs) \<Rightarrow> (r, evs)
            | (Break e, evs) \<Rightarrow>
                (fst (retry_exhausted max_attempts (Some e)),
                 evs @ snd (retry_exhausted max_attempts (Some e) :: (error + 'a) \<times> event list))
            | (Continue e, evs) \<Rightarrow>
                (case retry_loop w fname func max_attempts base_delay (Suc attempt) (Some e)
                        (hist @ evs) of
                   (r, evs') \<Rightarrow> (r, evs @ evs')))
      else retry_exhausted max_attempts last_error)"
  by pat_completeness auto
termination
  by (relation "measure (\<lambda>(w, fname, func, max_attempts, base_delay, attempt, last_error, hist).
                  nat (max_attempts + 1 - int attempt))") auto

declare retry_loop.simps [simp del]

text \<open>
  \<^verbatim>\<open>retry_with_backoff(func, max_attempts=..., base_delay=...)\<close>; \<open>fname\<close> is
  \<^verbatim>\<open>func.__name__\<close>.
\<close>

definition retry_with_backoff ::
  "world \<Rightarrow> string \<Rightarrow> 'a action \<Rightarrow> int \<Rightarrow> int \<Rightarrow> 'a action" where
  "retry_with_backoff w fname func max_attempts base_delay hist =
     retry_loop w fname func max_attempts base_delay 1 None hist"

section \<open>The apply loop\<close>

text \<open>The body of the \<^verbatim>\<open>while\<close> loop of \<^verbatim>\<open>out_of_capacity_auto_apply\<close>.\<close>

definition apply_body :: "world \<Rightarrow> nat \<Rightarrow> event list \<Rightarrow> (bool, unit) flow \<times> event list" where
  "apply_body w attempt hist =
     (let ev0 = [Printed INFO (''Apply attempt '' @ str_int (int attempt) @ ''/''
                               @ str_int (RETRY_MAX_ATTEMPTS w))]
      in case run_command w TerraformApply (hist @ ev0) of
           (Inl e, ev1) \<Rightarrow> (Return (Inl e), ev0 @ ev1)
         | (Inr result, ev1) \<Rightarrow>
            if returncode result = 0
            then (Return (Inr True), ev0 @ ev1 @ [Printed SUCCESS ''terraform apply succeeded''])
            else
             (let output = stdout result @ stderr result
              in if out_of_capacity output
                 then
                  (let ev2 = ev0 @ ev1 @
                         [Printed WARNING ''Apply failed with 'Out of Capacity' - will retry'']
                   in if int attempt < RETRY_MAX_ATTEMPTS w
                      then (let sleep_time = RETRY_BASE_DELAY w * 2 ^ (attempt - 1);
                                ev3 = ev2 @ [Printed INFO (''Waiting '' @ str_int sleep_time
                                                           @ ''s before retrying...'')]
                            in if sleep_time < 0 then (Return (Inl ValueError), ev3)
                               else (Continue (), ev3 @ [Slept sleep_time]))
                      else (Break (), ev2))
                 else (Return (Inr False),
                       ev0 @ ev1 @
                       [Printed ERROR ''terraform apply failed with non-retryable error'',
                        Printed PLAIN output])))"

definition apply_exhausted :: "world \<Rightarrow> (error + bool) \<times> event list" where
  "apply_exhausted w =
     (Inr False,
      [Printed ERROR (''terraform apply did not succeed after '' @ str_int (RETRY_MAX_ATTEMPTS w)
                      @ '' attempts'')])"

function apply_loop :: "world \<Rightarrow> nat \<Rightarrow> event list \<Rightarrow> (error + bool) \<times> event list" where
  "apply_loop w attempt hist =
     (if int attempt \<le> RETRY_MAX_ATTEMPTS w
      then (case apply_body w attempt hist of
              (Return r, evs) \<Rightarrow> (r, evs)
            | (Break u, evs) \<Rightarrow> (fst (apply_exhausted w), evs @ snd (apply_exhausted w))
            | (Continue u, evs) \<Rightarrow>
                (case apply_loop w (Suc attempt) (hist @ evs) of (r, evs') \<Rightarrow> (r, evs @ evs')))
      else apply_exhausted w)"
  by pat_completeness auto
termination
  by (relation "measure (\<lambda>(w, attempt, hist). nat (RETRY_MAX_ATTEMPTS w + 1 - int attempt))") auto

declare apply_loop.simps [simp del]

definition out_of_capacity_auto_apply :: "world \<Rightarrow> bool action" where
  "out_of_capacity_auto_apply w hist =
     (let ev0 = [Printed INFO (''Auto-retrying terraform apply until success or max attempts (''
                               @ str_int (RETRY_MAX_ATTEMPTS w) @ '')...'')]
      in case apply_loop w 1 (hist @ ev0) of (r, evs) \<Rightarrow> (r, ev0 @ evs))"

section \<open>Importing existing resources\<close>

definition try_except :: "'a action \<Rightarrow> (error \<Rightarrow> 'a action) \<Rightarrow> 'a action" where
  "try_except m handler hist =
     (case m hist of
        (Inl e, evs) \<Rightarrow> (case handler e (hist @ evs) of (r, evs') \<Rightarrow> (r, evs @ evs'))
      | (Inr x, evs) \<Rightarrow> (Inr x, evs))"

definition raise :: "error \<Rightarrow> 'a action" where
  "raise e hist = (Inl e, [])"

text \<open>The nested function \<^verbatim>\<open>_init\<close> of \<^verbatim>\<open>import_existing_resources\<close>.\<close>

definition init_checked :: "world \<Rightarrow> CompletedProcess action" where
  "init_checked w =
     and_then (run_command w TerraformInit) (\<lambda>result.
       if returncode result \<noteq> 0 then raise (CalledProcessError (returncode result))
       else pure result)"

text \<open>The nested function \<^verbatim>\<open>_run\<close> of \<^verbatim>\<open>run_cmd_with_retries_and_check\<close>.\<close>

definition run_checked :: "world \<Rightarrow> command \<Rightarrow> string action" where
  "run_checked w cmd =
     and_then (run_command w cmd) (\<lambda>result.
       if returncode result \<noteq> 0 then raise (CalledProcessError (returncode result))
       else pure (stdout result))"

text \<open>
  The flag \<^verbatim>\<open>out_of_capacity_detected\<close> is set by \<^verbatim>\<open>_run\<close> whenever a run ends with a
  non-zero status and a capacity signal in \<^verbatim>\<open>result.stderr or result.stdout or ""\<close>; it
  is read off the events of the retried runs.
\<close>

definition capacity_run :: "event \<Rightarrow> bool" where
  "capacity_run ev =
     (case ev of
        Ran c (Inr result) \<Rightarrow>
          returncode result \<noteq> 0 \<and>
          out_of_capacity (if stderr result \<noteq> [] then stderr result else stdout result)
      | _ \<Rightarrow> False)"

definition run_cmd_with_retries_and_check :: "world \<Rightarrow> command \<Rightarrow> (bool \<times> bool) action" where
  "run_cmd_with_retries_and_check w cmd hist =
     (case retry_with_backoff w ''_run'' (run_checked w cmd)
             (RETRY_MAX_ATTEMPTS w) (RETRY_BASE_DELAY w) hist of
        (Inr output, evs) \<Rightarrow>
          (Inr ((case json_loads w output of
                   JsonValue \<Rightarrow> True
                 | JSONDecodeError \<Rightarrow> strip output \<noteq> []
                 | JsonOtherError \<Rightarrow> False),
                list_ex capacity_run evs), evs)
      | (Inl e, evs) \<Rightarrow> (Inr (False, list_ex capacity_run evs), evs))"

text \<open>
  \<^verbatim>\<open>import_vcn_components\<close> runs four loops of the same shape, one per kind of component:
  the first item that satisfies the loop's condition is imported into the kind's single
  address unless \<^verbatim>\<open>terraform state show\<close> finds the address, and the loop ends there.
\<close>

definition import_component ::
  "world \<Rightarrow> tf_address \<Rightarrow> string \<Rightarrow> (ExistingResource \<Rightarrow> bool) \<Rightarrow> resources \<Rightarrow> unit action" where
  "import_component w addr imported_msg cond items =
     (case find (\<lambda>(rid, r). cond r) items of
        None \<Rightarrow> pure ()
      | Some (rid, r) \<Rightarrow>
          and_then (run_command w (TerraformStateShow addr)) (\<lambda>result.
            if returncode result \<noteq> 0
            then and_then (run_command w (TerraformImport addr rid)) (\<lambda>result'.
                   if returncode result' = 0 then console INFO imported_msg else pure ())
            else pure ()))"

definition in_vcn :: "string \<Rightarrow> ExistingResource \<Rightarrow> bool" where
  "in_vcn vcn_id r \<longleftrightarrow> get_text r ''vcn_id'' = Some vcn_id"

definition default_in_vcn :: "string \<Rightarrow> ExistingResource \<Rightarrow> bool" where
  "default_in_vcn vcn_id r \<longleftrightarrow>
     get_text r ''vcn_id'' = Some vcn_id \<and> (str_in ''Default'' (name r) \<or> str_in ''default'' (name r))"

definition import_vcn_components :: "world \<Rightarrow> inventory \<Rightarrow> string \<Rightarrow> unit action" where
  "import_vcn_components w ivt vcn_id =
     and_then (import_component w InternetGatewayMain ''    Imported Internet Gateway''
                 (in_vcn vcn_id) (existing_internet_gateways ivt)) (\<lambda>_.
     and_then (import_component w SubnetMain ''    Imported Subnet''
                 (in_vcn vcn_id) (existing_subnets ivt)) (\<lambda>_.
     and_then (import_component w DefaultRouteTableMain ''    Imported Route Table''
                 (default_in_vcn vcn_id) (existing_route_tables ivt)) (\<lambda>_.
     import_component w DefaultSecurityListMain ''    Imported Security List''
                 (default_in_vcn vcn_id) (existing_security_lists ivt))))"

text \<open>The counters \<^verbatim>\<open>imported\<close> and \<^verbatim>\<open>failed\<close> are passed along as a pair.\<close>

definition import_vcn :: "world \<Rightarrow> inventory \<Rightarrow> nat \<times> nat \<Rightarrow> (nat \<times> nat) action" where
  "import_vcn w ivt counters =
     (case existing_vcns ivt of
        [] \<Rightarrow> pure counters
      | (first_vcn_id, vcn) # others \<Rightarrow>
          and_then (console INFO (''Importing VCN: '' @ name vcn)) (\<lambda>_.
          and_then (run_command w (TerraformStateShow VcnMain)) (\<lambda>result.
            if returncode result = 0
            then and_then (console INFO ''  Already in state'') (\<lambda>_. pure counters)
            else
              and_then (run_cmd_with_retries_and_check w (TerraformImport VcnMain first_vcn_id))
                (\<lambda>(success, detected).
                   if success
                   then and_then (console SUCCESS ''  Imported successfully'') (\<lambda>_.
                        and_then (import_vcn_components w ivt first_vcn_id) (\<lambda>_.
                        pure (Suc (fst counters), snd counters)))
                   else and_then (console WARNING ''  Failed to import (see logs above)'') (\<lambda>_.
                        pure (fst counters, Suc (snd counters)))))))"

text \<open>
  The body of the two instance loops, which differ in the label printed (\<^verbatim>\<open>AMD\<close>,
  \<^verbatim>\<open>ARM\<close>), the address (\<^verbatim>\<open>amd[i]\<close>, \<^verbatim>\<open>arm[i]\<close>) and the instance count compared
  with the index.
\<close>

definition import_instance ::
  "world \<Rightarrow> string \<Rightarrow> tf_address \<Rightarrow> string \<Rightarrow> ExistingResource \<Rightarrow> nat \<times> nat \<Rightarrow> (nat \<times> nat) action" where
  "import_instance w label addr instance_id inst counters =
     and_then (console INFO (''Importing '' @ label @ '' instance: '' @ name inst)) (\<lambda>_.
     and_then (run_command w (TerraformStateShow addr)) (\<lambda>result.
       if returncode result = 0
       then and_then (console INFO ''  Already in state'') (\<lambda>_. pure counters)
       else
         and_then (run_cmd_with_retries_and_check w (TerraformImport addr instance_id))
           (\<lambda>(success, detected).
              if success
              then and_then (console SUCCESS ''  Imported successfully'') (\<lambda>_.
                   pure (Suc (fst counters), snd counters))
              else and_then (console WARNING ''  Failed to import (see logs above)'') (\<lambda>_.
                   pure (fst counters, Suc (snd counters))))))"

fun import_instances ::
  "world \<Rightarrow> string \<Rightarrow> (nat \<Rightarrow> tf_address) \<Rightarrow> int \<Rightarrow> resources \<Rightarrow> nat \<Rightarrow> nat \<times> nat
   \<Rightarrow> (nat \<times> nat) action" where
  "import_instances w label addr instance_count [] index counters = pure counters"
| "import_instances w label addr instance_count ((instance_id, inst) # rest) index counters =
     (if int index \<ge> instance_count then pure counters
      else and_then (import_instance w label (addr index) instance_id inst counters)
             (\<lambda>counters'. import_instances w label addr instance_count rest (Suc index) counters'))"

definition import_existing_resources :: "world \<Rightarrow> inventory \<Rightarrow> InstanceConfig \<Rightarrow> bool action" where
  "import_existing_resources w ivt cfg =
     and_then (console HEADER ''IMPORTING EXISTING RESOURCES'') (\<lambda>_.
     if existing_vcns ivt = [] \<and> existing_amd_instances ivt = [] \<and> existing_arm_instances ivt = []
     then and_then (console INFO ''No existing resources to import'') (\<lambda>_. pure True)
     else
       and_then (console INFO ''Initializing Terraform...'') (\<lambda>_.
       and_then
         (try_except
            (and_then (retry_with_backoff w ''_init'' (init_checked w)
                         (RETRY_MAX_ATTEMPTS w) (RETRY_BASE_DELAY w)) (\<lambda>_. pure True))
            (\<lambda>e. and_then (console ERROR (''Terraform init failed after retries: ''
                                          @ exception_text w e)) (\<lambda>_. pure False)))
         (\<lambda>initialised.
            if \<not> initialised then pure False
            else
              and_then (import_vcn w ivt (0, 0)) (\<lambda>counters1.
              and_then (import_instances w ''AMD'' AmdInstance (amd_micro_instance_count cfg)
                          (existing_amd_instances ivt) 0 counters1) (\<lambda>counters2.
              and_then (import_instances w ''ARM'' ArmInstance (arm_flex_instance_count cfg)
                          (existing_arm_instances ivt) 0 counters2) (\<lambda>(imported, failed).
              and_then (console PLAIN []) (\<lambda>_.
              and_then (console SUCCESS (''Import complete: '' @ str_int (int imported)
                                         @ '' imported, '' @ str_int (int failed) @ '' failed''))
                (\<lambda>_. pure True))))))))"

section \<open>Observing a run\<close>

text \<open>Predicates on events, and what is read off the list of events of a run.\<close>

definition is_apply :: "event \<Rightarrow> bool" where
  "is_apply ev = (case ev of Ran TerraformApply r \<Rightarrow> True | _ \<Rightarrow> False)"

definition is_call :: "event \<Rightarrow> bool" where
  "is_call ev = (case ev of Called f r \<Rightarrow> True | _ \<Rightarrow> False)"

definition command_or_message :: "event \<Rightarrow> bool" where
  "command_or_message ev = (case ev of Ran c r \<Rightarrow> True | Printed l s \<Rightarrow> True | _ \<Rightarrow> False)"

text \<open>
  The sleeps of a run, each with the number of attempts made before it: \<open>n\<close> counts the
  attempts so far, and \<open>is_attempt\<close> recognises the event that is an attempt.
\<close>

fun delays :: "(event \<Rightarrow> bool) \<Rightarrow> nat \<Rightarrow> event list \<Rightarrow> (nat \<times> int) list" where
  "delays is_attempt n [] = []"
| "delays is_attempt n (ev # evs) =
     (case ev of Slept d \<Rightarrow> [(n, d)] | _ \<Rightarrow> []) @
     delays is_attempt (if is_attempt ev then Suc n else n) evs"

text \<open>
  A retried function is quiet when all it adds to a run are commands and messages: it
  does not sleep and does not retry anything itself.
\<close>

definition quiet :: "'a action \<Rightarrow> bool" where
  "quiet func \<longleftrightarrow> (\<forall>hist. list_all command_or_message (snd (func hist)))"



text \<open>
  \<^verbatim>\<open>terraform state show\<close> found the address in the state; \<^verbatim>\<open>terraform import\<close> was
  run for the address.
\<close>

definition found_in_state :: "tf_address \<Rightarrow> event \<Rightarrow> bool" where
  "found_in_state a ev =
     (case ev of
        Ran (TerraformStateShow a') (Inr result) \<Rightarrow> a' = a \<and> returncode result = 0
      | _ \<Rightarrow> False)"

definition imports_into :: "tf_address \<Rightarrow> event \<Rightarrow> bool" where
  "imports_into a ev = (case ev of Ran (TerraformImport a' rid) r \<Rightarrow> a' = a | _ \<Rightarrow> False)"

definition found_addresses :: "event list \<Rightarrow> tf_address set" where
  "found_addresses evs = {a. \<exists>ev \<in> set evs. found_in_state a ev}"

definition imported_addresses :: "event list \<Rightarrow> tf_address set" where
  "imported_addresses evs = {a. \<exists>ev \<in> set evs. imports_into a ev}"

text \<open>Every event that an action adds satisfies \<open>Q\<close>.\<close>

definition emits :: "(event \<Rightarrow> bool) \<Rightarrow> 'a action \<Rightarrow> bool" where
  "emits Q m \<longleftrightarrow> (\<forall>hist. \<forall>ev \<in> set (snd (m hist)). Q ev)"

text \<open>
  An action finds addresses of \<open>K\<close> only in the state, imports into addresses of \<open>I\<close>
  only, and imports into no address that it found in the state.
\<close>

definition touch :: "tf_address set \<Rightarrow> tf_address set \<Rightarrow> 'a action \<Rightarrow> bool" where
  "touch K I m \<longleftrightarrow>
     (\<forall>hist. found_addresses (snd (m hist)) \<subseteq> K \<and>
             imported_addresses (snd (m hist)) \<subseteq> I \<and>
             found_addresses (snd (m hist)) \<inter> imported_addresses (snd (m hist)) = {})"

text \<open>
  The identifiers that may be imported into an address: the first key of the VCN
  inventory for the VCN address, the components recorded with that VCN as parent for the
  component addresses, and the inventoried instances for the instance addresses.
\<close>

definition first_vcn_ids :: "inventory \<Rightarrow> string set" where
  "first_vcn_ids ivt = (case existing_vcns ivt of [] \<Rightarrow> {} | (k, v) # others \<Rightarrow> {k})"

definition children_of_first_vcn :: "inventory \<Rightarrow> resources \<Rightarrow> string set" where
  "children_of_first_vcn ivt items =
     {rid. \<exists>r k. (rid, r) \<in> set items \<and> k \<in> first_vcn_ids ivt \<and> get_text r ''vcn_id'' = Some k}"

fun importable :: "inventory \<Rightarrow> tf_address \<Rightarrow> string set" where
  "importable ivt VcnMain = first_vcn_ids ivt"
| "importable ivt (AmdInstance i) = fst ` set (existing_amd_instances ivt)"
| "importable ivt (ArmInstance i) = fst ` set (existing_arm_instances ivt)"
| "importable ivt InternetGatewayMain = children_of_first_vcn ivt (existing_internet_gateways ivt)"
| "importable ivt SubnetMain = children_of_first_vcn ivt (existing_subnets ivt)"
| "importable ivt DefaultRouteTableMain = children_of_first_vcn ivt (existing_route_tables ivt)"
| "importable ivt DefaultSecurityListMain = children_of_first_vcn ivt (existing_security_lists ivt)"

definition import_allowed :: "inventory \<Rightarrow> event \<Rightarrow> bool" where
  "import_allowed ivt ev =
     (case ev of Ran (TerraformImport addr rid) r \<Rightarrow> rid \<in> importable ivt addr | _ \<Rightarrow> True)"

text \<open>An event that finds no address in the state and imports into addresses of \<open>I\<close> only.\<close>

definition silent_but :: "tf_address set \<Rightarrow> event \<Rightarrow> bool" where
  "silent_but I ev \<longleftrightarrow> (\<forall>a. \<not> found_in_state a ev) \<and> (\<forall>a. imports_into a ev \<longrightarrow> a \<in> I)"

text \<open>The addresses of the components that are imported along with a VCN.\<close>

definition vcn_components :: "tf_address set" where
  "vcn_components = {InternetGatewayMain, SubnetMain, DefaultRouteTableMain, DefaultSecurityListMain}"

section \<open>Example inputs\<close>

text \<open>A tenancy without resources, and a configuration that knows an ARM image.\<close>

definition empty_inventory :: inventory where
  "empty_inventory =
     \<lparr> existing_vcns = [], existing_subnets = [], existing_internet_gateways = [],
       existing_route_tables = [], existing_security_lists = [], existing_amd_instances = [],
       existing_arm_instances = [], existing_boot_volumes = [], existing_block_volumes = [] \<rparr>"

definition oci_with_arm_image :: OciConfig where
  "oci_with_arm_image =
     \<lparr> tenancy_ocid = ''ocid1.tenancy.oc1..t'', user_ocid = ''ocid1.user.oc1..u'',
       region = ''eu-frankfurt-1'', fingerprint = [], availability_domain = ''AD-1'',
       ubuntu_image_ocid = ''ocid1.image.oc1..x86'',
       ubuntu_arm_flex_image_ocid = ''ocid1.image.oc1..arm'', ssh_public_key = [],
       auth_method = ''security_token'' \<rparr>"

text \<open>Answers to the prompts of the custom planner.\<close>

definition default_arm_answers :: arm_answers where
  "default_arm_answers =
     \<lparr> hostname_answer = None, ocpus_answer = None, memory_answer = None, boot_answer = None \<rparr>"

definition two_arm_default_answers :: custom_answers where
  "two_arm_default_answers =
     \<lparr> amd_count_answer = None, amd_boot_answer = None, amd_hostname_answer = (\<lambda>i. None),
       arm_count_answer = Some 2, arm_answer = (\<lambda>i. default_arm_answers) \<rparr>"

definition three_then_default_answers :: custom_answers where
  "three_then_default_answers =
     \<lparr> amd_count_answer = None, amd_boot_answer = None, amd_hostname_answer = (\<lambda>i. None),
       arm_count_answer = Some 2,
       arm_answer = (\<lambda>i. if i = 1 then default_arm_answers\<lparr> ocpus_answer := Some 3 \<rparr>
                          else default_arm_answers) \<rparr>"

text \<open>A tenancy that already runs three AMD micro instances.\<close>

definition amd_micro_instance :: "string \<Rightarrow> string \<Rightarrow> string \<times> ExistingResource" where
  "amd_micro_instance ocid display_name =
     (ocid, \<lparr> res_id = ocid, name = display_name, state = ''RUNNING'',
              info = \<lparr> numeric = Map.empty,
                       textual = [''shape'' \<mapsto> ''VM.Standard.E2.1.Micro'',
                                  ''public_ip'' \<mapsto> ''none'', ''private_ip'' \<mapsto> ''none''] \<rparr> \<rparr>)"

definition tenancy_three_amd :: inventory where
  "tenancy_three_amd =
     empty_inventory\<lparr> existing_amd_instances :=
       [amd_micro_instance ''ocid1.instance.oc1..a'' ''web-1'',
        amd_micro_instance ''ocid1.instance.oc1..b'' ''web-2'',
        amd_micro_instance ''ocid1.instance.oc1..c'' ''web-3''] \<rparr>"

text \<open>A tenancy whose only ARM instance has 1 OCPU and 30 GB of memory.\<close>

definition tenancy_arm_over_memory :: inventory where
  "tenancy_arm_over_memory =
     empty_inventory\<lparr> existing_arm_instances :=
       [(''ocid1.instance.oc1..d'',
         \<lparr> res_id = ''ocid1.instance.oc1..d'', name = ''db-1'', state = ''RUNNING'',
           info = \<lparr> numeric = [''ocpus'' \<mapsto> 1, ''memory'' \<mapsto> 30],
                    textual = [''shape'' \<mapsto> ''VM.Standard.A1.Flex'',
                               ''public_ip'' \<mapsto> ''none'', ''private_ip'' \<mapsto> ''none''] \<rparr> \<rparr>)] \<rparr>"

text \<open>A \<^verbatim>\<open>variables.tf\<close> that declares two ARM instances and lists one.\<close>

definition saved_file_two_arm_one_entry :: string where
  "saved_file_two_arm_one_entry =
     ''arm_flex_instance_count = 2'' @ [CHR 0x0A] @
     ''arm_flex_ocpus_per_instance = [4]'' @ [CHR 0x0A] @
     ''arm_flex_memory_per_instance = [24]'' @ [CHR 0x0A] @
     ''arm_flex_boot_volume_size_gb = [50]'' @ [CHR 0x0A] @
     ''arm_flex_hostnames = [\"arm-1\"]'' @ [CHR 0x0A]"

text \<open>
  Worlds in which every command ends with the same result: a capacity error, or an
  invalid-parameter error.
\<close>

definition python_str :: "error \<Rightarrow> string" where
  "python_str e =
     (case e of
        CalledProcessError rc \<Rightarrow> ''Command returned non-zero exit status '' @ str_int rc @ ''.''
      | SubprocessFailure text \<Rightarrow> text
      | TypeError \<Rightarrow> ''exceptions must derive from BaseException''
      | ValueError \<Rightarrow> ''sleep length must be non-negative'')"

definition capacity_failure :: CompletedProcess where
  "capacity_failure =
     \<lparr> returncode = 1, stdout = [], stderr = ''Out of host capacity: Limit exceeded'' \<rparr>"


definition world_answering :: "CompletedProcess \<Rightarrow> int \<Rightarrow> int \<Rightarrow> world" where
  "world_answering result max_attempts base_delay =
     \<lparr> run = (\<lambda>hist cmd. Inr result), exception_text = python_str,
       json_loads = (\<lambda>text. JSONDecodeError), DEBUG = False,
       RETRY_MAX_ATTEMPTS = max_attempts, RETRY_BASE_DELAY = base_delay \<rparr>"


text \<open>
  Results of \<^verbatim>\<open>terraform state show\<close> and \<^verbatim>\<open>terraform import\<close>, a world in which
  no address is in the state and every import succeeds, and a tenancy with two VCNs.
\<close>

definition found_result :: CompletedProcess where
  "found_result = \<lparr> returncode = 0, stdout = ''# resource found'', stderr = [] \<rparr>"

definition not_found_result :: CompletedProcess where
  "not_found_result =
     \<lparr> returncode = 1, stdout = [], stderr = ''No instance found for the given address!'' \<rparr>"

definition import_ok_result :: CompletedProcess where
  "import_ok_result = \<lparr> returncode = 0, stdout = ''Import successful!'', stderr = [] \<rparr>"

definition world_nothing_in_state :: world where
  "world_nothing_in_state =
     \<lparr> run = (\<lambda>hist cmd. case cmd of TerraformStateShow a \<Rightarrow> Inr not_found_result
                                     | _ \<Rightarrow> Inr import_ok_result),
       exception_text = python_str, json_loads = (\<lambda>text. JSONDecodeError), DEBUG = False,
       RETRY_MAX_ATTEMPTS = 8, RETRY_BASE_DELAY = 15 \<rparr>"

definition network_resource :: "string \<Rightarrow> string \<Rightarrow> string \<Rightarrow> string \<times> ExistingResource" where
  "network_resource ocid display_name parent =
     (ocid, \<lparr> res_id = ocid, name = display_name, state = [],
              info = \<lparr> numeric = Map.empty, textual = [''vcn_id'' \<mapsto> parent] \<rparr> \<rparr>)"

definition vcn_resource :: "string \<Rightarrow> string \<Rightarrow> string \<times> ExistingResource" where
  "vcn_resource ocid display_name =
     (ocid, \<lparr> res_id = ocid, name = display_name, state = [],
              info = \<lparr> numeric = Map.empty, textual = [''cidr'' \<mapsto> ''10.0.0.0/16''] \<rparr> \<rparr>)"

definition tenancy_two_vcns :: inventory where
  "tenancy_two_vcns =
     empty_inventory\<lparr>
       existing_vcns := [vcn_resource ''vcn.a'' ''net-a'', vcn_resource ''vcn.b'' ''net-b''],
       existing_subnets := [network_resource ''subnet.a'' ''sub-a'' ''vcn.a'',
                            network_resource ''subnet.b'' ''sub-b'' ''vcn.b''],
       existing_internet_gateways := [network_resource ''ig.a'' ''ig-a'' ''vcn.a'',
                                      network_resource ''ig.b'' ''ig-b'' ''vcn.b''],
       existing_route_tables := [network_resource ''rt.a'' ''Default Route Table for net-a'' ''vcn.a'',
                                 network_resource ''rt.b'' ''Default Route Table for net-b'' ''vcn.b''],
       existing_security_lists := [network_resource ''sl.a'' ''Default Security List for net-a'' ''vcn.a'',
                                   network_resource ''sl.b'' ''Default Security List for net-b'' ''vcn.b''],
       existing_amd_instances := [amd_micro_instance ''instance.a'' ''web-1''] \<rparr>"

definition plan_of_existing :: InstanceConfig where
  "plan_of_existing = configure_from_existing_instances tenancy_two_vcns default_instance_config"

section \<open>Properties of the quota calculator\<close>

lemma foldl_plus_int: "foldl (+) a xs = a + sum_list (xs :: int list)"
  by (induction xs arbitrary: a) simp_all

lemma py_sum_sum_list: "py_sum xs = sum_list xs"
  by (simp add: py_sum_def foldl_plus_int)

text \<open>
  Claim C1. For every inventory the headroom in each quota dimension is the fixed limit
  minus the amount used: AMD headroom is 2 minus the number of existing AMD instances,
  ARM OCPU headroom is 4 minus the sum of the \<^verbatim>\<open>ocpus\<close> of the existing ARM instances,
  ARM memory headroom is 24 minus the sum of their \<^verbatim>\<open>memory\<close>, and storage headroom is
  200 minus the sum of the sizes of all boot volumes and all block volumes.
\<close>

theorem calculate_available_resources_headroom:
  "amd_instances (calculate_available_resources ivt)
     = 2 - int (length (existing_amd_instances ivt))
   \<and> arm_ocpus (calculate_available_resources ivt)
     = 4 - (\<Sum>(k, inst) \<leftarrow> existing_arm_instances ivt. get_num inst ''ocpus'')
   \<and> arm_memory (calculate_available_resources ivt)
     = 24 - (\<Sum>(k, inst) \<leftarrow> existing_arm_instances ivt. get_num inst ''memory'')
   \<and> storage (calculate_available_resources ivt)
     = 200 - ((\<Sum>(k, vol) \<leftarrow> existing_boot_volumes ivt. get_num vol ''size'')
            + (\<Sum>(k, vol) \<leftarrow> existing_block_volumes ivt. get_num vol ''size''))"
  by (simp add: calculate_available_resources_def Let_def py_sum_sum_list dict_values_def
      FREE_TIER_MAX_AMD_INSTANCES_def FREE_TIER_MAX_ARM_OCPUS_def
      FREE_TIER_MAX_ARM_MEMORY_GB_def FREE_TIER_MAX_STORAGE_GB_def
      comp_def case_prod_unfold)

section \<open>Properties of the configuration planner\<close>

lemma arm_instance_body_unfold:
  "arm_instance_body a i st =
     (fst st - max 1 (min (ask (ocpus_answer a) (fst st)) (fst st)),
      fst (snd st) -
        max 1 (min (ask (memory_answer a)
                      (min (max 1 (min (ask (ocpus_answer a) (fst st)) (fst st)) * 6) (fst (snd st))))
                 (min (max 1 (min (ask (ocpus_answer a) (fst st)) (fst st)) * 6) (fst (snd st)))),
      (snd (snd st))\<lparr>
        arm_flex_hostnames := arm_flex_hostnames (snd (snd st)) @
          [ask (hostname_answer a) (''arm-instance-'' @ str_int i)],
        arm_flex_ocpus_per_instance := arm_flex_ocpus_per_instance (snd (snd st)) @
          [max 1 (min (ask (ocpus_answer a) (fst st)) (fst st))],
        arm_flex_memory_per_instance := arm_flex_memory_per_instance (snd (snd st)) @
          [max 1 (min (ask (memory_answer a)
                        (min (max 1 (min (ask (ocpus_answer a) (fst st)) (fst st)) * 6) (fst (snd st))))
                   (min (max 1 (min (ask (ocpus_answer a) (fst st)) (fst st)) * 6) (fst (snd st))))],
        arm_flex_boot_volume_size_gb := arm_flex_boot_volume_size_gb (snd (snd st)) @
          [max 50 (min (ask (boot_answer a) 50) 200)],
        arm_flex_block_volumes := arm_flex_block_volumes (snd (snd st)) @ [0] \<rparr>)"
  by (simp only: arm_instance_body_def Let_def case_prod_beta)

lemma arm_updates_proj:
  "arm_flex_instance_count
     (c\<lparr> arm_flex_hostnames := h, arm_flex_ocpus_per_instance := oc,
          arm_flex_memory_per_instance := m, arm_flex_boot_volume_size_gb := b,
          arm_flex_block_volumes := k \<rparr>) = arm_flex_instance_count c"
  "arm_flex_hostnames
     (c\<lparr> arm_flex_hostnames := h, arm_flex_ocpus_per_instance := oc,
          arm_flex_memory_per_instance := m, arm_flex_boot_volume_size_gb := b,
          arm_flex_block_volumes := k \<rparr>) = h"
  "arm_flex_ocpus_per_instance
     (c\<lparr> arm_flex_hostnames := h, arm_flex_ocpus_per_instance := oc,
          arm_flex_memory_per_instance := m, arm_flex_boot_volume_size_gb := b,
          arm_flex_block_volumes := k \<rparr>) = oc"
  "arm_flex_memory_per_instance
     (c\<lparr> arm_flex_hostnames := h, arm_flex_ocpus_per_instance := oc,
          arm_flex_memory_per_instance := m, arm_flex_boot_volume_size_gb := b,
          arm_flex_block_volumes := k \<rparr>) = m"
  "arm_flex_boot_volume_size_gb
     (c\<lparr> arm_flex_hostnames := h, arm_flex_ocpus_per_instance := oc,
          arm_flex_memory_per_instance := m, arm_flex_boot_volume_size_gb := b,
          arm_flex_block_volumes := k \<rparr>) = b"
  "amd_micro_instance_count
     (c\<lparr> arm_flex_hostnames := h, arm_flex_ocpus_per_instance := oc,
          arm_flex_memory_per_instance := m, arm_flex_boot_volume_size_gb := b,
          arm_flex_block_volumes := k \<rparr>) = amd_micro_instance_count c"
  by simp_all

lemma arm_instance_body_count:
  "arm_flex_instance_count (snd (snd (arm_instance_body a i st))) = arm_flex_instance_count (snd (snd st))"
  by (simp only: arm_instance_body_unfold snd_conv arm_updates_proj)

lemma arm_instance_body_ocpus:
  "arm_flex_ocpus_per_instance (snd (snd (arm_instance_body a i st)))
     = arm_flex_ocpus_per_instance (snd (snd st)) @ [max 1 (min (ask (ocpus_answer a) (fst st)) (fst st))]"
  by (simp only: arm_instance_body_unfold snd_conv arm_updates_proj)

lemma arm_instance_body_remaining:
  "fst (arm_instance_body a i st) = fst st - max 1 (min (ask (ocpus_answer a) (fst st)) (fst st))"
  by (simp only: arm_instance_body_unfold fst_conv)

lemma arm_instance_body_lengths:
  "length (arm_flex_ocpus_per_instance (snd (snd (arm_instance_body a i st))))
     = Suc (length (arm_flex_ocpus_per_instance (snd (snd st))))"
  "length (arm_flex_memory_per_instance (snd (snd (arm_instance_body a i st))))
     = Suc (length (arm_flex_memory_per_instance (snd (snd st))))"
  "length (arm_flex_boot_volume_size_gb (snd (snd (arm_instance_body a i st))))
     = Suc (length (arm_flex_boot_volume_size_gb (snd (snd st))))"
  "length (arm_flex_hostnames (snd (snd (arm_instance_body a i st))))
     = Suc (length (arm_flex_hostnames (snd (snd st))))"
  by (simp_all only: arm_instance_body_unfold snd_conv arm_updates_proj length_append_singleton)

lemma arm_instance_body_ocpus_ge1:
  assumes "\<forall>x \<in> set (arm_flex_ocpus_per_instance (snd (snd st))). 1 \<le> x"
  shows "\<forall>x \<in> set (arm_flex_ocpus_per_instance (snd (snd (arm_instance_body a i st)))). 1 \<le> x"
proof -
  have "(1::int) \<le> max 1 (min (ask (ocpus_answer a) (fst st)) (fst st))"
    by (rule max.cobounded1)
  with assms show ?thesis
    by (simp only: arm_instance_body_ocpus set_append ball_Un list.set ball_simps)
qed


lemma length_range1: "length (range1 n) = nat n"
  by (simp add: range1_def)

lemma range1_2: "range1 2 = [1, 2]"
  by (simp add: range1_def upto_rec1)

lemma arm_instance_loop_count:
  "arm_flex_instance_count (snd (snd (arm_instance_loop ans is st))) = arm_flex_instance_count (snd (snd st))"
  by (induction "is" arbitrary: st) (simp_all add: arm_instance_body_count)

lemma arm_instance_loop_lengths:
  "length (arm_flex_ocpus_per_instance (snd (snd (arm_instance_loop ans is st))))
     = length (arm_flex_ocpus_per_instance (snd (snd st))) + length is
   \<and> length (arm_flex_memory_per_instance (snd (snd (arm_instance_loop ans is st))))
     = length (arm_flex_memory_per_instance (snd (snd st))) + length is
   \<and> length (arm_flex_boot_volume_size_gb (snd (snd (arm_instance_loop ans is st))))
     = length (arm_flex_boot_volume_size_gb (snd (snd st))) + length is
   \<and> length (arm_flex_hostnames (snd (snd (arm_instance_loop ans is st))))
     = length (arm_flex_hostnames (snd (snd st))) + length is"
  by (induction "is" arbitrary: st) (simp_all add: arm_instance_body_lengths)

lemma arm_instance_loop_ocpus_ge1:
  "\<forall>x \<in> set (arm_flex_ocpus_per_instance (snd (snd st))). 1 \<le> x
   \<Longrightarrow> \<forall>x \<in> set (arm_flex_ocpus_per_instance (snd (snd (arm_instance_loop ans is st)))). 1 \<le> x"
proof (induction "is" arbitrary: st)
  case Nil
  then show ?case by simp
next
  case (Cons i rest)
  show ?case
    unfolding arm_instance_loop.simps
    by (rule Cons.IH) (rule arm_instance_body_ocpus_ge1, rule Cons.prems)
qed

lemma custom_parallel: "arm_arrays_parallel (configure_custom_instances ivt oci ans cfg)"
  by (simp add: configure_custom_instances_def arm_arrays_parallel_def Let_def
      arm_instance_loop_count arm_instance_loop_lengths length_range1)

lemma existing_parallel: "arm_arrays_parallel (configure_from_existing_instances ivt cfg)"
  by (simp add: configure_from_existing_instances_def arm_arrays_parallel_def Let_def
      dict_values_def repeat_def)

lemma maximum_parallel: "arm_arrays_parallel (configure_maximum_free_tier ivt oci cfg)"
  by (simp add: configure_maximum_free_tier_def arm_arrays_parallel_def Let_def)

lemma custom_ocpus_ge1:
  "\<forall>x \<in> set (arm_flex_ocpus_per_instance (configure_custom_instances ivt oci ans cfg)). 1 \<le> x"
proof -
  have loop: "\<And>is a b c n. \<forall>x \<in> set (arm_flex_ocpus_per_instance (snd (snd
      (arm_instance_loop (arm_answer ans) is
        (a, b, c\<lparr> arm_flex_instance_count := n, arm_flex_hostnames := [],
                      arm_flex_ocpus_per_instance := [], arm_flex_memory_per_instance := [],
                      arm_flex_boot_volume_size_gb := [], arm_flex_block_volumes := [] \<rparr>))))). 1 \<le> x"
    by (rule arm_instance_loop_ocpus_ge1) simp
  show ?thesis
    by (simp add: configure_custom_instances_def Let_def loop)
qed

lemma custom_arm_ocpus:
  assumes "ubuntu_arm_flex_image_ocid oci \<noteq> []" "0 < arm_ocpus (calculate_available_resources ivt)"
  shows "\<exists>c. arm_flex_ocpus_per_instance (c::InstanceConfig) = [] \<and>
    arm_flex_ocpus_per_instance (configure_custom_instances ivt oci ans cfg) =
     arm_flex_ocpus_per_instance (snd (snd (arm_instance_loop (arm_answer ans)
         (range1 (max 0 (min (ask (arm_count_answer ans) 1) 4)))
         (arm_ocpus (calculate_available_resources ivt),
          arm_memory (calculate_available_resources ivt), c))))"
  using assms
  by (auto simp add: configure_custom_instances_def Let_def intro!: exI)

lemma arm_instance_loop_amd_count:
  "amd_micro_instance_count (snd (snd (arm_instance_loop ans is st)))
     = amd_micro_instance_count (snd (snd st))"
proof (induction "is" arbitrary: st)
  case Nil
  show ?case by simp
next
  case (Cons i rest)
  have "amd_micro_instance_count (snd (snd (arm_instance_body (ans i) i st)))
          = amd_micro_instance_count (snd (snd st))"
    by (simp only: arm_instance_body_unfold snd_conv arm_updates_proj)
  with Cons.IH [of "arm_instance_body (ans i) i st"] show ?case by simp
qed

lemma custom_counts_nonnegative:
  "0 \<le> amd_micro_instance_count (configure_custom_instances ivt oci ans cfg)"
  "0 \<le> arm_flex_instance_count (configure_custom_instances ivt oci ans cfg)"
proof -
  have amd: "\<And>hs is c. amd_micro_instance_count (amd_hostname_loop hs is c) = amd_micro_instance_count c"
    subgoal for hs "is" c by (induction "is" arbitrary: c) (simp_all add: Let_def)
    done
  show "0 \<le> amd_micro_instance_count (configure_custom_instances ivt oci ans cfg)"
    by (simp add: configure_custom_instances_def Let_def amd arm_instance_loop_amd_count)
  show "0 \<le> arm_flex_instance_count (configure_custom_instances ivt oci ans cfg)"
    by (simp add: configure_custom_instances_def Let_def arm_instance_loop_count)
qed

text \<open>
  Claim C5 (the code departs from it). The claim says that every planner clamps a negative
  headroom to zero before allocating. The custom planner does
  (\<open>custom_counts_nonnegative\<close>); the maximum-utilisation planner copies the headroom
  unclamped. For a tenancy that runs three AMD micro instances the AMD headroom is
  \<open>-1\<close>, the maximum-utilisation plan has an AMD instance count of \<open>-1\<close>, and its ARM
  boot volume of 250 GB is sized from the negative AMD storage \<open>-50\<close>. For a tenancy
  whose ARM instance holds 30 GB of memory the memory headroom is \<open>-6\<close>, and the plan
  gives its ARM instance \<open>-6\<close> GB of memory.
\<close>

theorem maximum_free_tier_negative_amd_count:
  "amd_instances (calculate_available_resources tenancy_three_amd) = - 1
   \<and> amd_micro_instance_count
       (configure_maximum_free_tier tenancy_three_amd oci_with_arm_image default_instance_config) = - 1
   \<and> arm_flex_boot_volume_size_gb
       (configure_maximum_free_tier tenancy_three_amd oci_with_arm_image default_instance_config) = [250]
   \<and> arm_memory (calculate_available_resources tenancy_arm_over_memory) = - 6
   \<and> arm_flex_memory_per_instance
       (configure_maximum_free_tier tenancy_arm_over_memory oci_with_arm_image
          default_instance_config) = [- 6]"
  by code_simp

text \<open>
  Claim C6. In the custom planner each ARM instance lowers the running counter of
  remaining OCPUs by what it was given, and is given at most the larger of 1 and that
  counter. With 4 OCPUs available and two ARM instances of which the first asks for 3, the
  plan gives 3 and 1 OCPUs, whatever the second instance asks for (its default included).
\<close>

theorem custom_sequential_ocpus:
  "fst (arm_instance_body a i st)
     = fst st - last (arm_flex_ocpus_per_instance (snd (snd (arm_instance_body a i st))))
   \<and> last (arm_flex_ocpus_per_instance (snd (snd (arm_instance_body a i st)))) \<le> max 1 (fst st)
   \<and> (arm_ocpus (calculate_available_resources ivt) = 4 \<and> ubuntu_arm_flex_image_ocid oci \<noteq> []
        \<and> arm_count_answer ans = Some 2 \<and> ocpus_answer (arm_answer ans 1) = Some 3
      \<longrightarrow> arm_flex_ocpus_per_instance (configure_custom_instances ivt oci ans cfg) = [3, 1])"
proof (intro conjI impI)
  show "fst (arm_instance_body a i st)
     = fst st - last (arm_flex_ocpus_per_instance (snd (snd (arm_instance_body a i st))))"
    by (simp add: arm_instance_body_ocpus arm_instance_body_remaining)
  show "last (arm_flex_ocpus_per_instance (snd (snd (arm_instance_body a i st)))) \<le> max 1 (fst st)"
    by (simp add: arm_instance_body_ocpus)
next
  assume asm: "arm_ocpus (calculate_available_resources ivt) = 4 \<and> ubuntu_arm_flex_image_ocid oci \<noteq> []
        \<and> arm_count_answer ans = Some 2 \<and> ocpus_answer (arm_answer ans 1) = Some 3"
  then obtain c :: InstanceConfig where c: "arm_flex_ocpus_per_instance c = []"
    and eq: "arm_flex_ocpus_per_instance (configure_custom_instances ivt oci ans cfg) =
     arm_flex_ocpus_per_instance (snd (snd (arm_instance_loop (arm_answer ans)
         (range1 (max 0 (min (ask (arm_count_answer ans) 1) 4)))
         (arm_ocpus (calculate_available_resources ivt),
          arm_memory (calculate_available_resources ivt), c))))"
    using custom_arm_ocpus [of oci ivt ans cfg] by auto
  have r: "range1 (max 0 (min (ask (arm_count_answer ans) 1) 4)) = [1, 2]"
    using asm by (simp add: ask_def range1_2)
  show "arm_flex_ocpus_per_instance (configure_custom_instances ivt oci ans cfg) = [3, 1]"
    unfolding eq r
    using asm by (simp add: arm_instance_body_ocpus arm_instance_body_remaining c ask_def)
qed

theorem custom_sequential_ocpus_witness:
  "arm_ocpus (calculate_available_resources empty_inventory) = 4
   \<and> ubuntu_arm_flex_image_ocid oci_with_arm_image \<noteq> []
   \<and> arm_count_answer three_then_default_answers = Some 2
   \<and> ocpus_answer (arm_answer three_then_default_answers 1) = Some 3
   \<and> arm_flex_ocpus_per_instance
       (configure_custom_instances empty_inventory oci_with_arm_image three_then_default_answers
          default_instance_config) = [3, 1]"
proof -
  have h: "arm_ocpus (calculate_available_resources empty_inventory) = 4
     \<and> ubuntu_arm_flex_image_ocid oci_with_arm_image \<noteq> []
     \<and> arm_count_answer three_then_default_answers = Some 2
     \<and> ocpus_answer (arm_answer three_then_default_answers 1) = Some 3"
    by code_simp
  from h custom_sequential_ocpus [of default_arm_answers 1 "(4, 24, default_instance_config)"
      empty_inventory oci_with_arm_image three_then_default_answers default_instance_config]
  show ?thesis by blast
qed

text \<open>
  Claim C7 (amended). The plans of the from-existing, custom and maximum-utilisation
  strategies satisfy the parallel-array invariant: the ARM lists of OCPUs, memory, boot
  volume sizes and hostnames are as long as the ARM instance count. The from-saved
  strategy is not covered: it reads the count and each list from \<^verbatim>\<open>variables.tf\<close>
  independently.
\<close>

theorem planner_parallel_arrays:
  "arm_arrays_parallel (configure_from_existing_instances ivt cfg)
   \<and> arm_arrays_parallel (configure_custom_instances ivt oci ans cfg)
   \<and> arm_arrays_parallel (configure_maximum_free_tier ivt oci cfg)"
  using existing_parallel custom_parallel maximum_parallel by blast

text \<open>
  Claim C7 as stated fails for the from-saved strategy: from a file that declares two ARM
  instances and lists one entry per array, \<^verbatim>\<open>load_existing_config\<close> builds a plan with
  an ARM instance count of 2 and lists of length 1.
\<close>

theorem load_existing_config_not_parallel:
  "load_existing_config (Some saved_file_two_arm_one_entry) default_instance_config
     = (True, default_instance_config\<lparr>
                arm_flex_instance_count := 2, arm_flex_ocpus_per_instance := [4],
                arm_flex_memory_per_instance := [24], arm_flex_boot_volume_size_gb := [50],
                arm_flex_hostnames := [''arm-1''] \<rparr>)
   \<and> \<not> arm_arrays_parallel
         (default_instance_config\<lparr>
            arm_flex_instance_count := 2, arm_flex_ocpus_per_instance := [4],
            arm_flex_memory_per_instance := [24], arm_flex_boot_volume_size_gb := [50],
            arm_flex_hostnames := [''arm-1''] \<rparr>)"
proof
  show "load_existing_config (Some saved_file_two_arm_one_entry) default_instance_config
     = (True, default_instance_config\<lparr>
                arm_flex_instance_count := 2, arm_flex_ocpus_per_instance := [4],
                arm_flex_memory_per_instance := [24], arm_flex_boot_volume_size_gb := [50],
                arm_flex_hostnames := [''arm-1''] \<rparr>)"
    by code_simp
  show "\<not> arm_arrays_parallel
         (default_instance_config\<lparr>
            arm_flex_instance_count := 2, arm_flex_ocpus_per_instance := [4],
            arm_flex_memory_per_instance := [24], arm_flex_boot_volume_size_gb := [50],
            arm_flex_hostnames := [''arm-1''] \<rparr>)"
    by (simp add: arm_arrays_parallel_def)
qed

text \<open>
  Claim C9. In the custom planner every ARM instance is given at least 1 OCPU; an
  instance configured when the counter of remaining OCPUs is 0 or less is given exactly 1;
  and there are inputs for which the OCPUs of the plan add up to more than the headroom.
\<close>

theorem custom_ocpus_at_least_one:
  "(\<forall>x \<in> set (arm_flex_ocpus_per_instance (configure_custom_instances ivt oci ans cfg)). 1 \<le> x)
   \<and> (fst st \<le> 0 \<longrightarrow>
        arm_flex_ocpus_per_instance (snd (snd (arm_instance_body a i st)))
          = arm_flex_ocpus_per_instance (snd (snd st)) @ [1])
   \<and> (\<exists>ivt' oci' ans' cfg'.
        arm_ocpus (calculate_available_resources ivt')
          < sum_list (arm_flex_ocpus_per_instance (configure_custom_instances ivt' oci' ans' cfg')))"
proof (intro conjI impI)
  show "\<forall>x \<in> set (arm_flex_ocpus_per_instance (configure_custom_instances ivt oci ans cfg)). 1 \<le> x"
    by (rule custom_ocpus_ge1)
next
  assume "fst st \<le> 0"
  then have "max 1 (min (ask (ocpus_answer a) (fst st)) (fst st)) = 1"
    by simp
  then show "arm_flex_ocpus_per_instance (snd (snd (arm_instance_body a i st)))
          = arm_flex_ocpus_per_instance (snd (snd st)) @ [1]"
    by (simp only: arm_instance_body_ocpus)
next
  have "arm_ocpus (calculate_available_resources empty_inventory)
          < sum_list (arm_flex_ocpus_per_instance
              (configure_custom_instances empty_inventory oci_with_arm_image two_arm_default_answers
                 default_instance_config))"
    by code_simp
  then show "\<exists>ivt' oci' ans' cfg'.
        arm_ocpus (calculate_available_resources ivt')
          < sum_list (arm_flex_ocpus_per_instance (configure_custom_instances ivt' oci' ans' cfg'))"
    by blast
qed

theorem custom_ocpus_at_least_one_witness:
  "arm_flex_ocpus_per_instance
     (configure_custom_instances empty_inventory oci_with_arm_image two_arm_default_answers
        default_instance_config) = [4, 1]
   \<and> (1::int) \<le> 4 \<and> (1::int) \<le> 1
   \<and> fst (0::int, 0::int, default_instance_config) \<le> 0
   \<and> arm_flex_ocpus_per_instance
        (snd (snd (arm_instance_body default_arm_answers 2 (0, 0, default_instance_config)))) = [1]"
proof -
  have e: "arm_flex_ocpus_per_instance
      (configure_custom_instances empty_inventory oci_with_arm_image two_arm_default_answers
         default_instance_config) = [4, 1]"
    by code_simp
  have d: "arm_flex_ocpus_per_instance default_instance_config = []"
    by (simp add: default_instance_config_def)
  from custom_ocpus_at_least_one [of empty_inventory oci_with_arm_image two_arm_default_answers
      default_instance_config "(0, 0, default_instance_config)" default_arm_answers 2]
  show ?thesis by (simp add: e d)
qed

section \<open>Properties of the retry loops\<close>

lemma delays_append:
  "delays p n (xs @ ys) = delays p n xs @ delays p (n + length (filter p xs)) ys"
  by (induction xs arbitrary: n) simp_all



lemma apply_body_cases:
  fixes w n hist
  defines "p0 \<equiv> Printed INFO (''Apply attempt '' @ str_int (int n) @ ''/'' @ str_int (RETRY_MAX_ATTEMPTS w))"
  defines "res \<equiv> run w (hist @ [p0]) TerraformApply"
  shows "(case res of
      Inl e \<Rightarrow> apply_body w n hist =
                 (Return (Inl e), p0 # Ran TerraformApply res # debug_message w res)
    | Inr r \<Rightarrow>
       if returncode r = 0
       then apply_body w n hist = (Return (Inr True), [p0, Ran TerraformApply res, Printed SUCCESS ''terraform apply succeeded''])
       else if \<not> out_of_capacity (stdout r @ stderr r)
       then apply_body w n hist = (Return (Inr False), [p0, Ran TerraformApply res,
              Printed ERROR ''terraform apply failed with non-retryable error'', Printed PLAIN (stdout r @ stderr r)])
       else if \<not> int n < RETRY_MAX_ATTEMPTS w
       then apply_body w n hist = (Break (), [p0, Ran TerraformApply res,
              Printed WARNING ''Apply failed with 'Out of Capacity' - will retry''])
       else if RETRY_BASE_DELAY w * 2 ^ (n - 1) < 0
       then apply_body w n hist = (Return (Inl ValueError), [p0, Ran TerraformApply res,
              Printed WARNING ''Apply failed with 'Out of Capacity' - will retry'',
              Printed INFO (''Waiting '' @ str_int (RETRY_BASE_DELAY w * 2 ^ (n - 1)) @ ''s before retrying...'')])
       else apply_body w n hist = (Continue (), [p0, Ran TerraformApply res,
              Printed WARNING ''Apply failed with 'Out of Capacity' - will retry'',
              Printed INFO (''Waiting '' @ str_int (RETRY_BASE_DELAY w * 2 ^ (n - 1)) @ ''s before retrying...''),
              Slept (RETRY_BASE_DELAY w * 2 ^ (n - 1))]))"
  unfolding p0_def res_def
  by (simp add: apply_body_def run_command_def debug_message_def Let_def split: sum.split)

lemma is_apply_simps [simp]:
  "is_apply (Ran TerraformApply r)" "\<not> is_apply (Printed l s)" "\<not> is_apply (Slept d)"
  "\<not> is_apply (Called f x)"
  by (simp_all add: is_apply_def)

lemma debug_message_simps [simp]:
  "filter is_apply (debug_message w r) = []"
  "delays p k (debug_message w r) = []"
  "Printed PLAIN s \<notin> set (debug_message w r)"
  "debug_message w (Inr result) = []"
  by (simp_all add: debug_message_def split: sum.split)

lemma apply_loop_done:
  "\<not> int a \<le> RETRY_MAX_ATTEMPTS w \<Longrightarrow> apply_loop w a hist = apply_exhausted w"
  by (simp add: apply_loop.simps)

lemma apply_loop_Return:
  "int a \<le> RETRY_MAX_ATTEMPTS w \<Longrightarrow> apply_body w a hist = (Return r, evs)
   \<Longrightarrow> apply_loop w a hist = (r, evs)"
  by (simp add: apply_loop.simps)

lemma apply_loop_Break:
  "int a \<le> RETRY_MAX_ATTEMPTS w \<Longrightarrow> apply_body w a hist = (Break u, evs)
   \<Longrightarrow> apply_loop w a hist = (Inr False, evs @ snd (apply_exhausted w))"
  by (simp add: apply_loop.simps apply_exhausted_def)

lemma apply_loop_Continue:
  "int a \<le> RETRY_MAX_ATTEMPTS w \<Longrightarrow> apply_body w a hist = (Continue u, evs)
   \<Longrightarrow> apply_loop w a hist =
         (fst (apply_loop w (Suc a) (hist @ evs)), evs @ snd (apply_loop w (Suc a) (hist @ evs)))"
  by (simp add: apply_loop.simps split: prod.split)

lemma apply_body_summary:
  assumes "apply_body w a hist = (fl, evs)"
  shows "length (filter is_apply evs) = 1"
    and "delays is_apply k evs =
           (case fl of Continue u \<Rightarrow> [(Suc k, RETRY_BASE_DELAY w * 2 ^ (a - 1))] | _ \<Rightarrow> [])"
    and "(\<exists>u. fl = Continue u) \<Longrightarrow> int a < RETRY_MAX_ATTEMPTS w"
  using assms apply_body_cases [where w=w and n=a and hist=hist]
  by (auto split: sum.splits if_splits)

lemma apply_loop_delays:
  "1 \<le> a \<Longrightarrow>
   \<exists>m. delays is_apply (a - 1) (snd (apply_loop w a hist)) =
     map (\<lambda>n. (n, RETRY_BASE_DELAY w * 2 ^ (n - 1))) [a..<a + m]"
proof (induction w a hist rule: apply_loop.induct)
  case (1 w a hist)
  show ?case
  proof (cases "int a \<le> RETRY_MAX_ATTEMPTS w")
    case False
    then show ?thesis by (intro exI [of _ 0]) (simp add: apply_loop_done apply_exhausted_def)
  next
    case True
    obtain fl evs where body: "apply_body w a hist = (fl, evs)" by (cases "apply_body w a hist")
    note sm = apply_body_summary [OF body]
    show ?thesis
    proof (cases fl)
      case (Return r)
      with True body sm(2) [of "a - 1"] show ?thesis
        by (intro exI [of _ 0]) (simp add: apply_loop_Return)
    next
      case (Break u)
      with True body sm(2) [of "a - 1"] show ?thesis
        by (intro exI [of _ 0]) (simp add: apply_loop_Break apply_exhausted_def delays_append)
    next
      case (Continue u)
      let ?rest = "snd (apply_loop w (Suc a) (hist @ evs))"
      obtain m where IH: "delays is_apply a ?rest =
          map (\<lambda>n. (n, RETRY_BASE_DELAY w * 2 ^ (n - 1))) [Suc a..<Suc a + m]"
        using "1.IH" [OF True body [symmetric] Continue] by auto
      have tr: "snd (apply_loop w a hist) = evs @ ?rest"
        using True body Continue by (simp add: apply_loop_Continue)
      have d: "delays is_apply (a - 1) (evs @ ?rest) =
          (a, RETRY_BASE_DELAY w * 2 ^ (a - 1)) # delays is_apply a ?rest"
        using sm(1) sm(2) [of "a - 1"] Continue "1.prems" by (simp add: delays_append)
      have u: "[a..<a + Suc m] = a # [Suc a..<Suc a + m]"
        by (simp add: upt_conv_Cons)
      have "delays is_apply (a - 1) (snd (apply_loop w a hist)) =
          map (\<lambda>n. (n, RETRY_BASE_DELAY w * 2 ^ (n - 1))) [a..<a + Suc m]"
        unfolding tr d IH u by simp
      then show ?thesis by blast
    qed
  qed
qed


subsection \<open>The loop of \<^verbatim>\<open>retry_with_backoff\<close>\<close>

lemma is_call_simps [simp]:
  "is_call (Called f x)" "\<not> is_call (Printed l s)" "\<not> is_call (Slept d)" "\<not> is_call (Ran c r)"
  by (simp_all add: is_call_def)

lemma quiet_no_calls: "list_all command_or_message evs \<Longrightarrow> filter is_call evs = []"
  by (induction evs) (auto simp: command_or_message_def is_call_def split: event.splits)

lemma quiet_no_delays: "list_all command_or_message evs \<Longrightarrow> delays is_call k evs = []"
  by (induction evs arbitrary: k) (auto simp: command_or_message_def is_call_def split: event.splits)

lemma retry_body_cases:
  fixes w fname func max_attempts base_delay a hist
  defines "p0 \<equiv> Printed INFO (''Attempt '' @ str_int (int a) @ ''/'' @ str_int max_attempts @ '': '' @ fname)"
  defines "res \<equiv> fst (func (hist @ [p0]))"
  defines "ev1 \<equiv> snd (func (hist @ [p0]))"
  defines "warn \<equiv> \<lambda>e. (if out_of_capacity (exception_text w e)
                    then Printed WARNING (''Detected 'Out of Capacity' condition (attempt ''
                                          @ str_int (int a) @ '').'')
                    else Printed WARNING (''Command failed: '' @ exception_text w e))"
  shows "(case res of
      Inr x \<Rightarrow> retry_body w fname func max_attempts base_delay a hist
                = (Return (Inr x), p0 # ev1 @ [Called fname None])
    | Inl e \<Rightarrow>
       if \<not> int a < max_attempts
       then retry_body w fname func max_attempts base_delay a hist
                = (Break e, p0 # ev1 @ [Called fname (Some e), warn e])
       else if base_delay * 2 ^ (a - 1) < 0
       then retry_body w fname func max_attempts base_delay a hist
                = (Return (Inl ValueError), p0 # ev1 @ [Called fname (Some e), warn e,
                     Printed INFO (''Retrying in '' @ str_int (base_delay * 2 ^ (a - 1)) @ ''s...'')])
       else retry_body w fname func max_attempts base_delay a hist
                = (Continue e, p0 # ev1 @ [Called fname (Some e), warn e,
                     Printed INFO (''Retrying in '' @ str_int (base_delay * 2 ^ (a - 1)) @ ''s...''),
                     Slept (base_delay * 2 ^ (a - 1))]))"
  unfolding p0_def res_def ev1_def warn_def
  by (simp add: retry_body_def Let_def split: sum.split prod.split)

lemma retry_body_summary:
  assumes "retry_body w fname func max_attempts base_delay a hist = (fl, evs)" and "quiet func"
  shows "length (filter is_call evs) = 1"
    and "delays is_call k evs =
           (case fl of Continue e \<Rightarrow> [(Suc k, base_delay * 2 ^ (a - 1))] | _ \<Rightarrow> [])"
proof -
  let ?p0 = "Printed INFO (''Attempt '' @ str_int (int a) @ ''/'' @ str_int max_attempts @ '': '' @ fname)"
  have q: "list_all command_or_message (snd (func (hist @ [?p0])))"
    using assms(2) by (simp add: quiet_def)
  note qc = quiet_no_calls [OF q] and qd = quiet_no_delays [OF q]
  show "length (filter is_call evs) = 1"
    using assms(1) retry_body_cases [where w=w and fname=fname and func=func and max_attempts=max_attempts
        and base_delay=base_delay and a=a and hist=hist] qc
    by (auto split: sum.splits if_splits)
  show "delays is_call k evs =
           (case fl of Continue e \<Rightarrow> [(Suc k, base_delay * 2 ^ (a - 1))] | _ \<Rightarrow> [])"
    using assms(1) retry_body_cases [where w=w and fname=fname and func=func and max_attempts=max_attempts
        and base_delay=base_delay and a=a and hist=hist] qc qd
    by (auto simp: delays_append split: sum.splits if_splits)
qed

lemma retry_loop_done:
  "\<not> int a \<le> max_attempts \<Longrightarrow>
   retry_loop w fname func max_attempts base_delay a le hist = retry_exhausted max_attempts le"
  by (simp add: retry_loop.simps)

lemma retry_loop_Return:
  "int a \<le> max_attempts \<Longrightarrow> retry_body w fname func max_attempts base_delay a hist = (Return r, evs)
   \<Longrightarrow> retry_loop w fname func max_attempts base_delay a le hist = (r, evs)"
  by (simp add: retry_loop.simps)

lemma retry_loop_Break:
  "int a \<le> max_attempts \<Longrightarrow> retry_body w fname func max_attempts base_delay a hist = (Break e, evs)
   \<Longrightarrow> retry_loop w fname func max_attempts base_delay a le hist =
         (Inl e, evs @ [Printed ERROR (''Command failed after '' @ str_int max_attempts @ '' attempts'')])"
  by (simp add: retry_loop.simps retry_exhausted_def)

lemma retry_loop_Continue:
  "int a \<le> max_attempts \<Longrightarrow> retry_body w fname func max_attempts base_delay a hist = (Continue e, evs)
   \<Longrightarrow> retry_loop w fname func max_attempts base_delay a le hist =
         (fst (retry_loop w fname func max_attempts base_delay (Suc a) (Some e) (hist @ evs)),
          evs @ snd (retry_loop w fname func max_attempts base_delay (Suc a) (Some e) (hist @ evs)))"
  by (simp add: retry_loop.simps split: prod.split)

lemma retry_loop_delays:
  "quiet func \<Longrightarrow> 1 \<le> a \<Longrightarrow>
   \<exists>m. delays is_call (a - 1) (snd (retry_loop w fname func max_attempts base_delay a le hist)) =
     map (\<lambda>n. (n, base_delay * 2 ^ (n - 1))) [a..<a + m]"
proof (induction w fname func max_attempts base_delay a le hist rule: retry_loop.induct)
  case (1 w fname func max_attempts base_delay a le hist)
  show ?case
  proof (cases "int a \<le> max_attempts")
    case False
    then show ?thesis
      by (intro exI [of _ 0]) (simp add: retry_loop_done retry_exhausted_def)
  next
    case True
    obtain fl evs where body: "retry_body w fname func max_attempts base_delay a hist = (fl, evs)"
      by (cases "retry_body w fname func max_attempts base_delay a hist")
    note sm = retry_body_summary [OF body "1.prems"(1)]
    show ?thesis
    proof (cases fl)
      case (Return r)
      with True body sm(2) [of "a - 1"] show ?thesis
        by (intro exI [of _ 0]) (simp add: retry_loop_Return)
    next
      case (Break e)
      with True body sm(2) [of "a - 1"] show ?thesis
        by (intro exI [of _ 0]) (simp add: retry_loop_Break delays_append)
    next
      case (Continue e)
      let ?rest = "snd (retry_loop w fname func max_attempts base_delay (Suc a) (Some e) (hist @ evs))"
      obtain m where IH: "delays is_call a ?rest =
          map (\<lambda>n. (n, base_delay * 2 ^ (n - 1))) [Suc a..<Suc a + m]"
        using "1.IH" [OF True body [symmetric] Continue "1.prems"(1)] by auto
      have tr: "snd (retry_loop w fname func max_attempts base_delay a le hist) = evs @ ?rest"
        using True body Continue by (simp add: retry_loop_Continue)
      have d: "delays is_call (a - 1) (evs @ ?rest) =
          (a, base_delay * 2 ^ (a - 1)) # delays is_call a ?rest"
        using sm(1) sm(2) [of "a - 1"] Continue "1.prems" by (simp add: delays_append)
      have u: "[a..<a + Suc m] = a # [Suc a..<Suc a + m]"
        by (simp add: upt_conv_Cons)
      have "delays is_call (a - 1) (snd (retry_loop w fname func max_attempts base_delay a le hist)) =
          map (\<lambda>n. (n, base_delay * 2 ^ (n - 1))) [a..<a + Suc m]"
        unfolding tr d IH u by simp
      then show ?thesis by blast
    qed
  qed
qed


subsection \<open>Runs of the apply loop\<close>













lemma out_of_capacity_auto_apply_trace:
  "snd (out_of_capacity_auto_apply w hist) =
     Printed INFO (''Auto-retrying terraform apply until success or max attempts (''
                   @ str_int (RETRY_MAX_ATTEMPTS w) @ '')...'')
     # snd (apply_loop w 1 (hist @ [Printed INFO
          (''Auto-retrying terraform apply until success or max attempts (''
           @ str_int (RETRY_MAX_ATTEMPTS w) @ '')...'')]))"
  "fst (out_of_capacity_auto_apply w hist) =
     fst (apply_loop w 1 (hist @ [Printed INFO
          (''Auto-retrying terraform apply until success or max attempts (''
           @ str_int (RETRY_MAX_ATTEMPTS w) @ '')...'')]))"
  by (simp_all add: out_of_capacity_auto_apply_def split: prod.split)

lemma quiet_init_checked: "quiet (init_checked w)"
  by (simp add: quiet_def init_checked_def and_then_def run_command_def raise_def pure_def
      command_or_message_def debug_message_def split: sum.split)




text \<open>
  Claim C3. In a run of \<^verbatim>\<open>retry_with_backoff\<close> (for a retried function that adds
  nothing but commands to the run) and in a run of the apply loop, the sleep that follows
  the \<open>n\<close>-th attempt lasts \<open>base_delay * 2 ^ (n - 1)\<close>: the sleeps of the run, each
  paired with the number of attempts before it, are \<open>(1, base_delay)\<close>,
  \<open>(2, base_delay * 2)\<close>, ... in this order. With a base delay of 15 the first three are
  15, 30 and 60.
\<close>

theorem backoff_delays:
  "(quiet func \<longrightarrow>
      (\<exists>m. delays is_call 0 (snd (retry_with_backoff w fname func max_attempts base_delay hist))
            = map (\<lambda>n. (n, base_delay * 2 ^ (n - 1))) [1..<Suc m]))
   \<and> (\<exists>m. delays is_apply 0 (snd (out_of_capacity_auto_apply w hist))
            = map (\<lambda>n. (n, RETRY_BASE_DELAY w * 2 ^ (n - 1))) [1..<Suc m])
   \<and> map (\<lambda>n. (n, (15::int) * 2 ^ (n - 1))) [1..<Suc 3] = [(1, 15), (2, 30), (3, 60)]"
proof (intro conjI impI)
  assume q: "quiet func"
  obtain m where
    "delays is_call (1 - 1) (snd (retry_loop w fname func max_attempts base_delay 1 None hist))
       = map (\<lambda>n. (n, base_delay * 2 ^ (n - 1))) [1..<1 + m]"
    using retry_loop_delays [OF q, of 1 w fname max_attempts base_delay None hist] by auto
  then have "delays is_call 0 (snd (retry_with_backoff w fname func max_attempts base_delay hist))
            = map (\<lambda>n. (n, base_delay * 2 ^ (n - 1))) [1..<Suc m]"
    by (simp add: retry_with_backoff_def)
  then show "\<exists>m. delays is_call 0 (snd (retry_with_backoff w fname func max_attempts base_delay hist))
            = map (\<lambda>n. (n, base_delay * 2 ^ (n - 1))) [1..<Suc m]"
    by (rule exI)
next
  let ?ev0 = "Printed INFO (''Auto-retrying terraform apply until success or max attempts (''
                               @ str_int (RETRY_MAX_ATTEMPTS w) @ '')...'')"
  obtain m where
    "delays is_apply (1 - 1) (snd (apply_loop w 1 (hist @ [?ev0])))
       = map (\<lambda>n. (n, RETRY_BASE_DELAY w * 2 ^ (n - 1))) [1..<1 + m]"
    using apply_loop_delays [of 1 w "hist @ [?ev0]"] by auto
  then have "delays is_apply 0 (snd (out_of_capacity_auto_apply w hist))
            = map (\<lambda>n. (n, RETRY_BASE_DELAY w * 2 ^ (n - 1))) [1..<Suc m]"
    by (simp add: out_of_capacity_auto_apply_trace)
  then show "\<exists>m. delays is_apply 0 (snd (out_of_capacity_auto_apply w hist))
            = map (\<lambda>n. (n, RETRY_BASE_DELAY w * 2 ^ (n - 1))) [1..<Suc m]"
    by (rule exI)
next
  show "map (\<lambda>n. (n, (15::int) * 2 ^ (n - 1))) [1..<Suc 3] = [(1, 15), (2, 30), (3, 60)]"
    by (simp add: upt_rec)
qed

theorem backoff_delays_witness:
  "quiet (init_checked (world_answering capacity_failure 4 15))
   \<and> delays is_call 0
       (snd (retry_with_backoff (world_answering capacity_failure 4 15) ''_init''
               (init_checked (world_answering capacity_failure 4 15)) 4 15 []))
     = [(1, 15), (2, 30), (3, 60)]
   \<and> delays is_apply 0 (snd (out_of_capacity_auto_apply (world_answering capacity_failure 4 15) []))
     = [(1, 15), (2, 30), (3, 60)]"
proof -
  have e1: "delays is_call 0
       (snd (retry_with_backoff (world_answering capacity_failure 4 15) ''_init''
               (init_checked (world_answering capacity_failure 4 15)) 4 15 []))
     = [(1, 15), (2, 30), (3, 60)]"
    by code_simp
  have e2: "delays is_apply 0 (snd (out_of_capacity_auto_apply (world_answering capacity_failure 4 15) []))
     = [(1, 15), (2, 30), (3, 60)]"
    by code_simp
  from backoff_delays [of "init_checked (world_answering capacity_failure 4 15)"
      "world_answering capacity_failure 4 15" "''_init''" 4 15 "[]"]
    quiet_init_checked [of "world_answering capacity_failure 4 15"] e1 e2
  show ?thesis by blast
qed




section \<open>Properties of the import of existing resources\<close>

subsection \<open>What every event of an action satisfies\<close>

lemma emits_pure [intro!]: "emits Q (pure x)"
  by (simp add: emits_def pure_def)

lemma emits_raise [intro!]: "emits Q (raise e)"
  by (simp add: emits_def raise_def)

lemma emits_console: "Q (Printed lvl msg) \<Longrightarrow> emits Q (console lvl msg)"
  by (simp add: emits_def console_def)

lemma emits_run_command:
  "(\<And>r. Q (Ran cmd r)) \<Longrightarrow> (\<And>l s. Q (Printed l s)) \<Longrightarrow> emits Q (run_command w cmd)"
  by (auto simp: emits_def run_command_def debug_message_def split: sum.splits if_splits)

lemma emits_and_then:
  assumes "emits Q m" and "\<And>x. emits Q (f x)"
  shows "emits Q (and_then m f)"
  unfolding emits_def
proof (intro allI ballI)
  fix hist ev
  assume ev: "ev \<in> set (snd (and_then m f hist))"
  obtain r evs where m: "m hist = (r, evs)" by (cases "m hist")
  from assms(1) m have q1: "\<forall>ev \<in> set evs. Q ev" by (auto simp: emits_def dest: spec [of _ hist])
  show "Q ev"
  proof (cases r)
    case (Inl e)
    with ev m q1 show ?thesis by (simp add: and_then_def)
  next
    case (Inr x)
    obtain r' evs' where f: "f x (hist @ evs) = (r', evs')" by (cases "f x (hist @ evs)")
    from assms(2) [of x] f have "\<forall>ev \<in> set evs'. Q ev"
      by (auto simp: emits_def dest: spec [of _ "hist @ evs"])
    with ev m q1 Inr f show ?thesis by (auto simp: and_then_def)
  qed
qed

lemma emits_try_except:
  assumes "emits Q m" and "\<And>e. emits Q (h e)"
  shows "emits Q (try_except m h)"
  unfolding emits_def
proof (intro allI ballI)
  fix hist ev
  assume ev: "ev \<in> set (snd (try_except m h hist))"
  obtain r evs where m: "m hist = (r, evs)" by (cases "m hist")
  from assms(1) m have q1: "\<forall>ev \<in> set evs. Q ev" by (auto simp: emits_def dest: spec [of _ hist])
  show "Q ev"
  proof (cases r)
    case (Inr x)
    with ev m q1 show ?thesis by (simp add: try_except_def)
  next
    case (Inl e)
    obtain r' evs' where f: "h e (hist @ evs) = (r', evs')" by (cases "h e (hist @ evs)")
    from assms(2) [of e] f have "\<forall>ev \<in> set evs'. Q ev"
      by (auto simp: emits_def dest: spec [of _ "hist @ evs"])
    with ev m q1 Inl f show ?thesis by (auto simp: try_except_def)
  qed
qed

lemma retry_body_emits:
  assumes "emits Q func" "\<And>l s. Q (Printed l s)" "\<And>d. Q (Slept d)" "\<And>f r. Q (Called f r)"
  shows "\<forall>ev \<in> set (snd (retry_body w fname func max_attempts base_delay a hist)). Q ev"
proof -
  have "\<forall>ev \<in> set (snd (func (hist @ [Printed INFO (''Attempt '' @ str_int (int a) @ ''/''
           @ str_int max_attempts @ '': '' @ fname)]))). Q ev"
    using assms(1) by (simp add: emits_def)
  then show ?thesis
    using retry_body_cases [where w=w and fname=fname and func=func and max_attempts=max_attempts
        and base_delay=base_delay and a=a and hist=hist] assms(2,3,4)
    by (auto split: sum.splits if_splits)
qed

lemma retry_loop_emits:
  "emits Q func \<Longrightarrow> (\<And>l s. Q (Printed l s)) \<Longrightarrow> (\<And>d. Q (Slept d)) \<Longrightarrow> (\<And>f r. Q (Called f r))
   \<Longrightarrow> \<forall>ev \<in> set (snd (retry_loop w fname func max_attempts base_delay a le hist)). Q ev"
proof (induction w fname func max_attempts base_delay a le hist rule: retry_loop.induct)
  case (1 w fname func max_attempts base_delay a le hist)
  show ?case
  proof (cases "int a \<le> max_attempts")
    case False
    with "1.prems"(2) show ?thesis by (simp add: retry_loop_done retry_exhausted_def)
  next
    case True
    obtain fl evs where body: "retry_body w fname func max_attempts base_delay a hist = (fl, evs)"
      by (cases "retry_body w fname func max_attempts base_delay a hist")
    from retry_body_emits [OF "1.prems", of w fname max_attempts base_delay a hist] body
    have q: "\<forall>ev \<in> set evs. Q ev" by simp
    show ?thesis
    proof (cases fl)
      case (Return r)
      with True body q show ?thesis by (simp add: retry_loop_Return)
    next
      case (Break e)
      with True body q "1.prems"(2) show ?thesis by (simp add: retry_loop_Break)
    next
      case (Continue e)
      from "1.IH" [OF True body [symmetric] Continue "1.prems"]
      have "\<forall>ev \<in> set (snd (retry_loop w fname func max_attempts base_delay (Suc a) (Some e) (hist @ evs))). Q ev" .
      with True body q Continue show ?thesis by (auto simp: retry_loop_Continue)
    qed
  qed
qed

lemma emits_retry_with_backoff:
  assumes "emits Q func" "\<And>l s. Q (Printed l s)" "\<And>d. Q (Slept d)" "\<And>f r. Q (Called f r)"
  shows "emits Q (retry_with_backoff w fname func max_attempts base_delay)"
  using retry_loop_emits [OF assms] by (simp add: emits_def retry_with_backoff_def)

lemma emits_run_cmd_with_retries_and_check:
  assumes "\<And>r. Q (Ran cmd r)" "\<And>l s. Q (Printed l s)" "\<And>d. Q (Slept d)" "\<And>f r. Q (Called f r)"
  shows "emits Q (run_cmd_with_retries_and_check w cmd)"
proof -
  have "emits Q (run_checked w cmd)"
    unfolding run_checked_def
    by (intro emits_and_then emits_run_command assms(1,2)) auto
  from emits_retry_with_backoff [OF this assms(2,3,4),
      of w "''_run''" "RETRY_MAX_ATTEMPTS w" "RETRY_BASE_DELAY w"]
  have q: "\<And>hist. \<forall>ev \<in> set (snd (retry_with_backoff w ''_run'' (run_checked w cmd)
             (RETRY_MAX_ATTEMPTS w) (RETRY_BASE_DELAY w) hist)). Q ev"
    by (simp add: emits_def)
  have "\<And>hist. snd (run_cmd_with_retries_and_check w cmd hist) =
      snd (retry_with_backoff w ''_run'' (run_checked w cmd)
             (RETRY_MAX_ATTEMPTS w) (RETRY_BASE_DELAY w) hist)"
    by (simp add: run_cmd_with_retries_and_check_def split: prod.splits sum.splits)
  with q show ?thesis by (simp add: emits_def)
qed


lemma emits_if: "(c \<Longrightarrow> emits Q m) \<Longrightarrow> (\<not> c \<Longrightarrow> emits Q m') \<Longrightarrow> emits Q (if c then m else m')"
  by simp

lemma emits_case_prod: "(\<And>a b. emits Q (g a b)) \<Longrightarrow> emits Q (case_prod g x)"
  by (cases x) simp

lemmas emits_intros =
  emits_and_then emits_try_except emits_if emits_case_prod emits_console emits_run_command
  emits_retry_with_backoff emits_run_cmd_with_retries_and_check

subsection \<open>Addresses found in the state and addresses imported\<close>

lemma found_addresses_simps [simp]:
  "found_addresses [] = {}"
  "found_addresses (xs @ ys) = found_addresses xs \<union> found_addresses ys"
  "found_addresses (ev # evs) = {a. found_in_state a ev} \<union> found_addresses evs"
  by (auto simp: found_addresses_def)

lemma imported_addresses_simps [simp]:
  "imported_addresses [] = {}"
  "imported_addresses (xs @ ys) = imported_addresses xs \<union> imported_addresses ys"
  "imported_addresses (ev # evs) = {a. imports_into a ev} \<union> imported_addresses evs"
  by (auto simp: imported_addresses_def)

lemma found_in_state_simps [simp]:
  "found_in_state a (Ran (TerraformStateShow a') (Inr result)) \<longleftrightarrow> a' = a \<and> returncode result = 0"
  "\<not> found_in_state a (Ran (TerraformStateShow a') (Inl e))"
  "\<not> found_in_state a (Ran (TerraformImport a' rid) r)"
  "\<not> found_in_state a (Ran TerraformInit r)"
  "\<not> found_in_state a (Ran TerraformApply r)"
  "\<not> found_in_state a (Printed l s)"
  "\<not> found_in_state a (Slept d)"
  "\<not> found_in_state a (Called f x)"
  by (simp_all add: found_in_state_def)

lemma imports_into_simps [simp]:
  "imports_into a (Ran (TerraformImport a' rid) r) \<longleftrightarrow> a' = a"
  "\<not> imports_into a (Ran (TerraformStateShow a') r)"
  "\<not> imports_into a (Ran TerraformInit r)"
  "\<not> imports_into a (Ran TerraformApply r)"
  "\<not> imports_into a (Printed l s)"
  "\<not> imports_into a (Slept d)"
  "\<not> imports_into a (Called f x)"
  by (simp_all add: imports_into_def)

lemma silent_but_simps [simp]:
  "silent_but I (Printed l s)" "silent_but I (Slept d)" "silent_but I (Called f x)"
  "silent_but I (Ran TerraformInit r)"
  "silent_but I (Ran (TerraformImport a rid) r) \<longleftrightarrow> a \<in> I"
  by (simp_all add: silent_but_def)

lemma touch_of_emits:
  assumes "emits (silent_but I) m"
  shows "touch {} I m"
proof -
  have "\<And>hist. found_addresses (snd (m hist)) = {} \<and> imported_addresses (snd (m hist)) \<subseteq> I"
    using assms by (auto simp: emits_def silent_but_def found_addresses_def imported_addresses_def)
  then show ?thesis by (simp add: touch_def)
qed

lemma touchD:
  assumes "touch K I m" and "m hist = (r, evs)"
  shows "found_addresses evs \<subseteq> K" and "imported_addresses evs \<subseteq> I" and "found_addresses evs \<inter> imported_addresses evs = {}"
proof -
  from assms(1) have "found_addresses (snd (m hist)) \<subseteq> K \<and> imported_addresses (snd (m hist)) \<subseteq> I \<and>
             found_addresses (snd (m hist)) \<inter> imported_addresses (snd (m hist)) = {}"
    unfolding touch_def by (rule spec)
  with assms(2) show "found_addresses evs \<subseteq> K" and "imported_addresses evs \<subseteq> I"
    and "found_addresses evs \<inter> imported_addresses evs = {}"
    by simp_all
qed

lemma disjoint_unions:
  assumes "A \<subseteq> K1" "C \<subseteq> I1" "A \<inter> C = {}" "B \<subseteq> K2" "D \<subseteq> I2" "B \<inter> D = {}"
    and "K1 \<inter> I2 = {}" "K2 \<inter> I1 = {}"
  shows "(A \<union> B) \<inter> (C \<union> D) = {}"
  using assms by blast

lemma touch_and_then:
  assumes "touch K1 I1 m" and "\<And>x. touch K2 I2 (f x)"
    and "K1 \<inter> I2 = {}" and "K2 \<inter> I1 = {}" and "K1 \<union> K2 \<subseteq> K" and "I1 \<union> I2 \<subseteq> I"
  shows "touch K I (and_then m f)"
  unfolding touch_def
proof
  fix hist
  obtain r evs where m: "m hist = (r, evs)" by (cases "m hist")
  note t1 = touchD [OF assms(1) m]
  show "found_addresses (snd (and_then m f hist)) \<subseteq> K \<and> imported_addresses (snd (and_then m f hist)) \<subseteq> I \<and>
        found_addresses (snd (and_then m f hist)) \<inter> imported_addresses (snd (and_then m f hist)) = {}"
  proof (cases r)
    case (Inl e)
    with m t1 assms(5,6) show ?thesis by (auto simp: and_then_def)
  next
    case (Inr x)
    obtain r' evs' where f: "f x (hist @ evs) = (r', evs')" by (cases "f x (hist @ evs)")
    note t2 = touchD [OF assms(2) [of x] f]
    have tr: "snd (and_then m f hist) = evs @ evs'"
      using m Inr f by (simp add: and_then_def)
    have "found_addresses evs \<union> found_addresses evs' \<subseteq> K" "imported_addresses evs \<union> imported_addresses evs' \<subseteq> I"
      using t1(1,2) t2(1,2) assms(5,6) by blast+
    moreover have "(found_addresses evs \<union> found_addresses evs') \<inter> (imported_addresses evs \<union> imported_addresses evs') = {}"
      by (rule disjoint_unions [OF t1 t2 assms(3,4)])
    ultimately show ?thesis by (simp add: tr)
  qed
qed

lemma touch_guarded:
  assumes "\<And>result. returncode result = 0 \<Longrightarrow> touch {} {} (k result)"
    and "\<And>result. returncode result \<noteq> 0 \<Longrightarrow> touch K I (k result)"
  shows "touch (insert a K) I (and_then (run_command w (TerraformStateShow a)) k)"
  unfolding touch_def
proof
  fix hist
  let ?m = "and_then (run_command w (TerraformStateShow a)) k"
  let ?show = "Ran (TerraformStateShow a) (run w hist (TerraformStateShow a))"
  show "found_addresses (snd (?m hist)) \<subseteq> insert a K \<and> imported_addresses (snd (?m hist)) \<subseteq> I \<and>
        found_addresses (snd (?m hist)) \<inter> imported_addresses (snd (?m hist)) = {}"
  proof (cases "run w hist (TerraformStateShow a)")
    case (Inl e)
    then show ?thesis by (simp add: and_then_def run_command_def debug_message_def)
  next
    case (Inr result)
    obtain r' evs' where f: "k result (hist @ [?show]) = (r', evs')"
      by (cases "k result (hist @ [?show])")
    have tr: "snd (?m hist) = ?show # evs'"
      using Inr f by (simp add: and_then_def run_command_def debug_message_def)
    show ?thesis
    proof (cases "returncode result = 0")
      case True
      from touchD [OF assms(1) [OF True] f] have "found_addresses evs' = {}" "imported_addresses evs' = {}"
        by simp_all
      with tr Inr show ?thesis by auto
    next
      case False
      from touchD [OF assms(2) [OF False] f] tr Inr False show ?thesis by auto
    qed
  qed
qed

lemma touch_silent_intro: "emits (silent_but {}) m \<Longrightarrow> touch {} {} m"
  by (rule touch_of_emits)

lemma touch_import_instance:
  "touch {addr} {addr} (import_instance w label addr instance_id inst counters)"
  unfolding import_instance_def
proof (rule touch_and_then [where ?K1.0="{}" and ?I1.0="{}" and ?K2.0="{addr}" and ?I2.0="{addr}"])
  show "touch {} {} (console INFO (''Importing '' @ label @ '' instance: '' @ name inst))"
    by (intro touch_of_emits emits_intros) simp
next
  fix u :: unit
  have "touch (insert addr {}) {addr}
     (and_then (run_command w (TerraformStateShow addr)) (\<lambda>result.
       if returncode result = 0
       then and_then (console INFO ''  Already in state'') (\<lambda>_. pure counters)
       else
         and_then (run_cmd_with_retries_and_check w (TerraformImport addr instance_id))
           (\<lambda>(success, detected).
              if success
              then and_then (console SUCCESS ''  Imported successfully'') (\<lambda>_.
                   pure (Suc (fst counters), snd counters))
              else and_then (console WARNING ''  Failed to import (see logs above)'') (\<lambda>_.
                   pure (fst counters, Suc (snd counters))))))"
  proof (rule touch_guarded)
    fix result :: CompletedProcess
    assume "returncode result = 0"
    then show "touch {} {} (if returncode result = 0
       then and_then (console INFO ''  Already in state'') (\<lambda>_. pure counters)
       else
         and_then (run_cmd_with_retries_and_check w (TerraformImport addr instance_id))
           (\<lambda>(success, detected).
              if success
              then and_then (console SUCCESS ''  Imported successfully'') (\<lambda>_.
                   pure (Suc (fst counters), snd counters))
              else and_then (console WARNING ''  Failed to import (see logs above)'') (\<lambda>_.
                   pure (fst counters, Suc (snd counters)))))"
      by (simp only: if_True) (intro touch_of_emits emits_intros emits_pure; simp)
  next
    fix result :: CompletedProcess
    assume "returncode result \<noteq> 0"
    then show "touch {} {addr} (if returncode result = 0
       then and_then (console INFO ''  Already in state'') (\<lambda>_. pure counters)
       else
         and_then (run_cmd_with_retries_and_check w (TerraformImport addr instance_id))
           (\<lambda>(success, detected).
              if success
              then and_then (console SUCCESS ''  Imported successfully'') (\<lambda>_.
                   pure (Suc (fst counters), snd counters))
              else and_then (console WARNING ''  Failed to import (see logs above)'') (\<lambda>_.
                   pure (fst counters, Suc (snd counters)))))"
      by (simp only: if_False) (intro touch_of_emits emits_intros emits_pure; simp)
  qed
  then show "touch {addr} {addr}
     (and_then (run_command w (TerraformStateShow addr)) (\<lambda>result.
       if returncode result = 0
       then and_then (console INFO ''  Already in state'') (\<lambda>_. pure counters)
       else
         and_then (run_cmd_with_retries_and_check w (TerraformImport addr instance_id))
           (\<lambda>(success, detected).
              if success
              then and_then (console SUCCESS ''  Imported successfully'') (\<lambda>_.
                   pure (Suc (fst counters), snd counters))
              else and_then (console WARNING ''  Failed to import (see logs above)'') (\<lambda>_.
                   pure (fst counters, Suc (snd counters))))))"
    by simp
qed simp_all


lemma touch_mono: "touch K I m \<Longrightarrow> K \<subseteq> K' \<Longrightarrow> I \<subseteq> I' \<Longrightarrow> touch K' I' m"
  unfolding touch_def by blast

lemma touch_silent:
  assumes "emits (silent_but {}) m"
  shows "touch K I m"
  using touch_of_emits [OF assms] by (rule touch_mono) simp_all

lemma touch_import_instances:
  assumes "inj addr"
  shows "touch (addr ` {index..}) (addr ` {index..})
           (import_instances w label addr instance_count items index counters)"
proof (induction items arbitrary: index counters)
  case Nil
  show ?case by (simp add: touch_silent emits_pure)
next
  case (Cons item rest)
  obtain instance_id inst where item: "item = (instance_id, inst)" by (cases item)
  show ?case
  proof (cases "int index \<ge> instance_count")
    case True
    with item show ?thesis by (simp add: touch_silent emits_pure)
  next
    case False
    have "touch (addr ` {index..}) (addr ` {index..})
      (and_then (import_instance w label (addr index) instance_id inst counters)
             (\<lambda>counters'. import_instances w label addr instance_count rest (Suc index) counters'))"
    proof (rule touch_and_then [where ?K1.0="{addr index}" and ?I1.0="{addr index}"
          and ?K2.0="addr ` {Suc index..}" and ?I2.0="addr ` {Suc index..}"])
      show "touch {addr index} {addr index} (import_instance w label (addr index) instance_id inst counters)"
        by (rule touch_import_instance)
      show "\<And>x. touch (addr ` {Suc index..}) (addr ` {Suc index..})
              (import_instances w label addr instance_count rest (Suc index) x)"
        by (rule Cons.IH)
      show "{addr index} \<inter> addr ` {Suc index..} = {}"
        using assms by (auto dest: injD)
      then show "addr ` {Suc index..} \<inter> {addr index} = {}"
        by blast
      show "{addr index} \<union> addr ` {Suc index..} \<subseteq> addr ` {index..}"
        by auto
      then show "{addr index} \<union> addr ` {Suc index..} \<subseteq> addr ` {index..}" .
    qed
    with False item show ?thesis by simp
  qed
qed

lemma touch_import_component:
  "touch {addr} {addr} (import_component w addr msg cond items)"
proof (cases "find (\<lambda>(rid, r). cond r) items")
  case None
  then show ?thesis by (simp add: import_component_def touch_silent emits_pure)
next
  case (Some found)
  obtain rid r where found: "found = (rid, r)" by (cases found)
  have "touch (insert addr {}) {addr}
     (and_then (run_command w (TerraformStateShow addr)) (\<lambda>result.
            if returncode result \<noteq> 0
            then and_then (run_command w (TerraformImport addr rid)) (\<lambda>result'.
                   if returncode result' = 0 then console INFO msg else pure ())
            else pure ()))"
  proof (rule touch_guarded)
    fix result :: CompletedProcess
    assume "returncode result = 0"
    then show "touch {} {} (if returncode result \<noteq> 0
            then and_then (run_command w (TerraformImport addr rid)) (\<lambda>result'.
                   if returncode result' = 0 then console INFO msg else pure ())
            else pure ())"
      by (simp add: touch_silent emits_pure)
  next
    fix result :: CompletedProcess
    assume "returncode result \<noteq> 0"
    then show "touch {} {addr} (if returncode result \<noteq> 0
            then and_then (run_command w (TerraformImport addr rid)) (\<lambda>result'.
                   if returncode result' = 0 then console INFO msg else pure ())
            else pure ())"
      by (simp only: if_True) (intro touch_of_emits emits_intros emits_pure; simp)
  qed
  with Some found show ?thesis by (simp add: import_component_def)
qed

lemma touch_import_vcn_components:
  "touch vcn_components vcn_components (import_vcn_components w ivt vcn_id)"
  unfolding import_vcn_components_def
  apply (rule touch_and_then [where ?K1.0="{InternetGatewayMain}" and ?I1.0="{InternetGatewayMain}"
        and ?K2.0="{SubnetMain, DefaultRouteTableMain, DefaultSecurityListMain}"
        and ?I2.0="{SubnetMain, DefaultRouteTableMain, DefaultSecurityListMain}"])
       apply (rule touch_import_component)
      apply (rule touch_and_then [where ?K1.0="{SubnetMain}" and ?I1.0="{SubnetMain}"
        and ?K2.0="{DefaultRouteTableMain, DefaultSecurityListMain}"
        and ?I2.0="{DefaultRouteTableMain, DefaultSecurityListMain}"])
           apply (rule touch_import_component)
          apply (rule touch_and_then [where ?K1.0="{DefaultRouteTableMain}" and ?I1.0="{DefaultRouteTableMain}"
        and ?K2.0="{DefaultSecurityListMain}" and ?I2.0="{DefaultSecurityListMain}"])
               apply (rule touch_import_component)
              apply (rule touch_import_component)
             apply (simp_all add: vcn_components_def)
  done


lemma touch_import_vcn:
  "touch (insert VcnMain vcn_components) (insert VcnMain vcn_components) (import_vcn w ivt counters)"
proof (cases "existing_vcns ivt")
  case Nil
  then show ?thesis by (simp add: import_vcn_def touch_silent emits_pure)
next
  case (Cons item others)
  obtain first_vcn_id vcn where item: "item = (first_vcn_id, vcn)" by (cases item)
  let ?k = "\<lambda>result.
            if returncode result = 0
            then and_then (console INFO ''  Already in state'') (\<lambda>_. pure counters)
            else
              and_then (run_cmd_with_retries_and_check w (TerraformImport VcnMain first_vcn_id))
                (\<lambda>(success, detected).
                   if success
                   then and_then (console SUCCESS ''  Imported successfully'') (\<lambda>_.
                        and_then (import_vcn_components w ivt first_vcn_id) (\<lambda>_.
                        pure (Suc (fst counters), snd counters)))
                   else and_then (console WARNING ''  Failed to import (see logs above)'') (\<lambda>_.
                        pure (fst counters, Suc (snd counters))))"
  have comps: "\<And>x :: bool \<times> bool. touch vcn_components vcn_components
      (case x of (success, detected) \<Rightarrow>
                   if success
                   then and_then (console SUCCESS ''  Imported successfully'') (\<lambda>_.
                        and_then (import_vcn_components w ivt first_vcn_id) (\<lambda>_.
                        pure (Suc (fst counters), snd counters)))
                   else and_then (console WARNING ''  Failed to import (see logs above)'') (\<lambda>_.
                        pure (fst counters, Suc (snd counters))))"
  proof -
    fix x :: "bool \<times> bool"
    obtain success detected where x: "x = (success, detected)" by (cases x)
    have a: "touch vcn_components vcn_components
        (and_then (console SUCCESS ''  Imported successfully'') (\<lambda>_.
                        and_then (import_vcn_components w ivt first_vcn_id) (\<lambda>_.
                        pure (Suc (fst counters), snd counters))))"
      apply (rule touch_and_then [where ?K1.0="{}" and ?I1.0="{}"
            and ?K2.0=vcn_components and ?I2.0=vcn_components])
           apply (intro touch_of_emits emits_intros; simp)
          apply (rule touch_and_then [where ?K1.0=vcn_components and ?I1.0=vcn_components
            and ?K2.0="{}" and ?I2.0="{}"])
               apply (rule touch_import_vcn_components)
              apply (rule touch_of_emits, rule emits_pure)
             apply simp_all
      done
    have b: "touch vcn_components vcn_components
        (and_then (console WARNING ''  Failed to import (see logs above)'') (\<lambda>_.
                        pure (fst counters, Suc (snd counters))))"
      by (rule touch_silent) (intro emits_intros emits_pure; simp)
    show "touch vcn_components vcn_components
      (case x of (success, detected) \<Rightarrow>
                   if success
                   then and_then (console SUCCESS ''  Imported successfully'') (\<lambda>_.
                        and_then (import_vcn_components w ivt first_vcn_id) (\<lambda>_.
                        pure (Suc (fst counters), snd counters)))
                   else and_then (console WARNING ''  Failed to import (see logs above)'') (\<lambda>_.
                        pure (fst counters, Suc (snd counters))))"
      using a b by (simp add: x)
  qed
  have guarded: "touch (insert VcnMain vcn_components) (insert VcnMain vcn_components)
      (and_then (run_command w (TerraformStateShow VcnMain)) ?k)"
  proof (rule touch_guarded)
    fix result :: CompletedProcess
    assume "returncode result = 0"
    then show "touch {} {} (?k result)"
      by (simp only: if_True) (intro touch_of_emits emits_intros emits_pure; simp)
  next
    fix result :: CompletedProcess
    assume "returncode result \<noteq> 0"
    moreover have "touch vcn_components (insert VcnMain vcn_components)
       (and_then (run_cmd_with_retries_and_check w (TerraformImport VcnMain first_vcn_id))
                (\<lambda>(success, detected).
                   if success
                   then and_then (console SUCCESS ''  Imported successfully'') (\<lambda>_.
                        and_then (import_vcn_components w ivt first_vcn_id) (\<lambda>_.
                        pure (Suc (fst counters), snd counters)))
                   else and_then (console WARNING ''  Failed to import (see logs above)'') (\<lambda>_.
                        pure (fst counters, Suc (snd counters)))))"
      apply (rule touch_and_then [where ?K1.0="{}" and ?I1.0="{VcnMain}"
            and ?K2.0=vcn_components and ?I2.0=vcn_components])
           apply (intro touch_of_emits emits_intros; simp)
          apply (rule comps)
         apply (simp_all add: vcn_components_def)
      done
    ultimately show "touch vcn_components (insert VcnMain vcn_components) (?k result)"
      by (simp only: if_False)
  qed
  have "touch (insert VcnMain vcn_components) (insert VcnMain vcn_components)
      (and_then (console INFO (''Importing VCN: '' @ name vcn)) (\<lambda>_.
          and_then (run_command w (TerraformStateShow VcnMain)) ?k))"
    apply (rule touch_and_then [where ?K1.0="{}" and ?I1.0="{}"
          and ?K2.0="insert VcnMain vcn_components" and ?I2.0="insert VcnMain vcn_components"])
         apply (intro touch_of_emits emits_intros; simp)
        apply (rule guarded)
       apply simp_all
    done
  with Cons item show ?thesis by (simp add: import_vcn_def)
qed

lemma touch_import_existing_resources:
  "touch UNIV UNIV (import_existing_resources w ivt cfg)"
proof -
  let ?V = "insert VcnMain vcn_components"
  let ?A = "range AmdInstance"
  let ?R = "range ArmInstance"
  have fin: "\<And>x. touch {} {} (case x of (imported, failed) \<Rightarrow>
              and_then (console PLAIN []) (\<lambda>_.
              and_then (console SUCCESS (''Import complete: '' @ str_int (int imported)
                                         @ '' imported, '' @ str_int (int failed) @ '' failed''))
                (\<lambda>_. pure True)))"
    by (intro touch_of_emits emits_intros emits_pure; simp)
  have arm: "\<And>c. touch ?R ?R (and_then (import_instances w ''ARM'' ArmInstance (arm_flex_instance_count cfg)
                          (existing_arm_instances ivt) 0 c) (\<lambda>(imported, failed).
              and_then (console PLAIN []) (\<lambda>_.
              and_then (console SUCCESS (''Import complete: '' @ str_int (int imported)
                                         @ '' imported, '' @ str_int (int failed) @ '' failed''))
                (\<lambda>_. pure True))))"
    apply (rule touch_and_then [where ?K1.0="?R" and ?I1.0="?R" and ?K2.0="{}" and ?I2.0="{}"])
         apply (rule touch_mono [OF touch_import_instances [of ArmInstance 0]])
           apply (simp add: inj_def)
          apply auto[2]
        apply (rule fin)
       apply simp_all
    done
  have amd: "\<And>c. touch (?A \<union> ?R) (?A \<union> ?R)
     (and_then (import_instances w ''AMD'' AmdInstance (amd_micro_instance_count cfg)
                          (existing_amd_instances ivt) 0 c) (\<lambda>counters2.
              and_then (import_instances w ''ARM'' ArmInstance (arm_flex_instance_count cfg)
                          (existing_arm_instances ivt) 0 counters2) (\<lambda>(imported, failed).
              and_then (console PLAIN []) (\<lambda>_.
              and_then (console SUCCESS (''Import complete: '' @ str_int (int imported)
                                         @ '' imported, '' @ str_int (int failed) @ '' failed''))
                (\<lambda>_. pure True)))))"
    apply (rule touch_and_then [where ?K1.0="?A" and ?I1.0="?A" and ?K2.0="?R" and ?I2.0="?R"])
         apply (rule touch_mono [OF touch_import_instances [of AmdInstance 0]])
           apply (simp add: inj_def)
          apply auto[2]
        apply (rule arm)
       apply auto
    done
  have rest: "touch (?V \<union> (?A \<union> ?R)) (?V \<union> (?A \<union> ?R))
     (and_then (import_vcn w ivt (0, 0)) (\<lambda>counters1.
              and_then (import_instances w ''AMD'' AmdInstance (amd_micro_instance_count cfg)
                          (existing_amd_instances ivt) 0 counters1) (\<lambda>counters2.
              and_then (import_instances w ''ARM'' ArmInstance (arm_flex_instance_count cfg)
                          (existing_arm_instances ivt) 0 counters2) (\<lambda>(imported, failed).
              and_then (console PLAIN []) (\<lambda>_.
              and_then (console SUCCESS (''Import complete: '' @ str_int (int imported)
                                         @ '' imported, '' @ str_int (int failed) @ '' failed''))
                (\<lambda>_. pure True))))))"
    apply (rule touch_and_then [where ?K1.0="?V" and ?I1.0="?V"
          and ?K2.0="?A \<union> ?R" and ?I2.0="?A \<union> ?R"])
         apply (rule touch_import_vcn)
        apply (rule amd)
       apply (auto simp: vcn_components_def)
    done
  have init: "touch {} {}
         (try_except
            (and_then (retry_with_backoff w ''_init'' (init_checked w)
                         (RETRY_MAX_ATTEMPTS w) (RETRY_BASE_DELAY w)) (\<lambda>_. pure True))
            (\<lambda>e. and_then (console ERROR (''Terraform init failed after retries: ''
                                          @ exception_text w e)) (\<lambda>_. pure False)))"
    unfolding init_checked_def
    by (intro touch_of_emits emits_intros emits_pure emits_raise; simp)
  have main: "touch UNIV UNIV
       (and_then
         (try_except
            (and_then (retry_with_backoff w ''_init'' (init_checked w)
                         (RETRY_MAX_ATTEMPTS w) (RETRY_BASE_DELAY w)) (\<lambda>_. pure True))
            (\<lambda>e. and_then (console ERROR (''Terraform init failed after retries: ''
                                          @ exception_text w e)) (\<lambda>_. pure False)))
         (\<lambda>initialised.
            if \<not> initialised then pure False
            else
              and_then (import_vcn w ivt (0, 0)) (\<lambda>counters1.
              and_then (import_instances w ''AMD'' AmdInstance (amd_micro_instance_count cfg)
                          (existing_amd_instances ivt) 0 counters1) (\<lambda>counters2.
              and_then (import_instances w ''ARM'' ArmInstance (arm_flex_instance_count cfg)
                          (existing_arm_instances ivt) 0 counters2) (\<lambda>(imported, failed).
              and_then (console PLAIN []) (\<lambda>_.
              and_then (console SUCCESS (''Import complete: '' @ str_int (int imported)
                                         @ '' imported, '' @ str_int (int failed) @ '' failed''))
                (\<lambda>_. pure True)))))))"
    apply (rule touch_and_then [where ?K1.0="{}" and ?I1.0="{}"
          and ?K2.0="?V \<union> (?A \<union> ?R)" and ?I2.0="?V \<union> (?A \<union> ?R)"])
         apply (rule init)
    subgoal for x
      using rest by (cases x) (simp_all add: touch_silent emits_pure)
       apply simp_all
    done
  show ?thesis
    unfolding import_existing_resources_def
    apply (rule touch_and_then [where ?K1.0="{}" and ?I1.0="{}" and ?K2.0=UNIV and ?I2.0=UNIV])
         apply (intro touch_of_emits emits_intros; simp)
    subgoal for x
      apply (cases "existing_vcns ivt = [] \<and> existing_amd_instances ivt = [] \<and> existing_arm_instances ivt = []")
       apply (simp only: if_True)
       apply (rule touch_silent)
       apply (intro emits_intros emits_pure; simp)
      apply (simp only: if_False)
      apply (rule touch_and_then [where ?K1.0="{}" and ?I1.0="{}" and ?K2.0=UNIV and ?I2.0=UNIV])
           apply (intro touch_of_emits emits_intros; simp)
          apply (rule main)
         apply simp_all
      done
       apply simp_all
    done
qed

lemma import_instance_in_state:
  assumes "run w (hist @ [Printed INFO (''Importing '' @ label @ '' instance: '' @ name inst)])
             (TerraformStateShow addr) = Inr result"
    and "returncode result = 0"
  shows "import_instance w label addr instance_id inst counters hist =
           (Inr counters,
            [Printed INFO (''Importing '' @ label @ '' instance: '' @ name inst),
             Ran (TerraformStateShow addr) (Inr result),
             Printed INFO ''  Already in state''])"
  using assms
  by (simp add: import_instance_def and_then_def console_def run_command_def pure_def
      debug_message_def)

lemma import_vcn_in_state:
  assumes "existing_vcns ivt = (first_vcn_id, vcn) # others"
    and "run w (hist @ [Printed INFO (''Importing VCN: '' @ name vcn)])
             (TerraformStateShow VcnMain) = Inr result"
    and "returncode result = 0"
  shows "import_vcn w ivt counters hist =
           (Inr counters,
            [Printed INFO (''Importing VCN: '' @ name vcn),
             Ran (TerraformStateShow VcnMain) (Inr result),
             Printed INFO ''  Already in state''])"
  using assms
  by (simp add: import_vcn_def and_then_def console_def run_command_def pure_def
      debug_message_def)

text \<open>
  Claim C8. In a run of \<^verbatim>\<open>import_existing_resources\<close>, an address that
  \<^verbatim>\<open>terraform state show\<close> found in the state (exit status 0) is never the target of a
  \<^verbatim>\<open>terraform import\<close>. For an instance and for the VCN the step then consists of the
  state check and the message \<^verbatim>\<open>Already in state\<close>, and leaves the counters of imported
  and failed resources as they were.
\<close>

theorem no_import_when_in_state:
  "(Ran (TerraformStateShow addr) (Inr result) \<in> set (snd (import_existing_resources w ivt cfg hist))
      \<and> returncode result = 0
    \<longrightarrow> Ran (TerraformImport addr rid) r \<notin> set (snd (import_existing_resources w ivt cfg hist)))
   \<and> (run w (hist' @ [Printed INFO (''Importing '' @ label @ '' instance: '' @ name inst)])
         (TerraformStateShow addr') = Inr result'
      \<and> returncode result' = 0
    \<longrightarrow> import_instance w label addr' instance_id inst counters hist' =
           (Inr counters,
            [Printed INFO (''Importing '' @ label @ '' instance: '' @ name inst),
             Ran (TerraformStateShow addr') (Inr result'),
             Printed INFO ''  Already in state'']))
   \<and> (existing_vcns ivt = (first_vcn_id, vcn) # others
      \<and> run w (hist' @ [Printed INFO (''Importing VCN: '' @ name vcn)])
           (TerraformStateShow VcnMain) = Inr result'
      \<and> returncode result' = 0
    \<longrightarrow> import_vcn w ivt counters hist' =
           (Inr counters,
            [Printed INFO (''Importing VCN: '' @ name vcn),
             Ran (TerraformStateShow VcnMain) (Inr result'),
             Printed INFO ''  Already in state'']))"
proof (intro conjI impI)
  assume a: "Ran (TerraformStateShow addr) (Inr result)
               \<in> set (snd (import_existing_resources w ivt cfg hist))
             \<and> returncode result = 0"
  show "Ran (TerraformImport addr rid) r \<notin> set (snd (import_existing_resources w ivt cfg hist))"
  proof
    assume imp: "Ran (TerraformImport addr rid) r
                   \<in> set (snd (import_existing_resources w ivt cfg hist))"
    obtain res evs where run: "import_existing_resources w ivt cfg hist = (res, evs)"
      by (cases "import_existing_resources w ivt cfg hist")
    from touchD(3) [OF touch_import_existing_resources run]
    have d: "found_addresses evs \<inter> imported_addresses evs = {}" .
    from a run have "addr \<in> found_addresses evs"
      by (auto simp: found_addresses_def
          intro!: bexI [of _ "Ran (TerraformStateShow addr) (Inr result)"])
    moreover from imp run have "addr \<in> imported_addresses evs"
      by (auto simp: imported_addresses_def intro!: bexI [of _ "Ran (TerraformImport addr rid) r"])
    ultimately show False using d by blast
  qed
next
  assume "run w (hist' @ [Printed INFO (''Importing '' @ label @ '' instance: '' @ name inst)])
         (TerraformStateShow addr') = Inr result'
      \<and> returncode result' = 0"
  then show "import_instance w label addr' instance_id inst counters hist' =
           (Inr counters,
            [Printed INFO (''Importing '' @ label @ '' instance: '' @ name inst),
             Ran (TerraformStateShow addr') (Inr result'),
             Printed INFO ''  Already in state''])"
    by (simp add: import_instance_in_state)
next
  assume "existing_vcns ivt = (first_vcn_id, vcn) # others
      \<and> run w (hist' @ [Printed INFO (''Importing VCN: '' @ name vcn)])
           (TerraformStateShow VcnMain) = Inr result'
      \<and> returncode result' = 0"
  then show "import_vcn w ivt counters hist' =
           (Inr counters,
            [Printed INFO (''Importing VCN: '' @ name vcn),
             Ran (TerraformStateShow VcnMain) (Inr result'),
             Printed INFO ''  Already in state''])"
    by (simp add: import_vcn_in_state)
qed

theorem no_import_when_in_state_witness:
  "Ran (TerraformStateShow VcnMain) (Inr found_result)
     \<in> set (snd (import_existing_resources (world_answering found_result 8 15) tenancy_two_vcns
                  plan_of_existing []))
   \<and> returncode found_result = 0
   \<and> Ran (TerraformImport VcnMain ''vcn.a'') (Inr import_ok_result)
     \<notin> set (snd (import_existing_resources (world_answering found_result 8 15) tenancy_two_vcns
                  plan_of_existing []))
   \<and> run (world_answering found_result 8 15)
        ([] @ [Printed INFO (''Importing '' @ ''AMD'' @ '' instance: ''
                             @ name (snd (amd_micro_instance ''instance.a'' ''web-1'')))])
        (TerraformStateShow (AmdInstance 0)) = Inr found_result
   \<and> import_instance (world_answering found_result 8 15) ''AMD'' (AmdInstance 0) ''instance.a''
        (snd (amd_micro_instance ''instance.a'' ''web-1'')) (0, 0) [] =
       (Inr (0, 0),
        [Printed INFO ''Importing AMD instance: web-1'',
         Ran (TerraformStateShow (AmdInstance 0)) (Inr found_result),
         Printed INFO ''  Already in state''])
   \<and> existing_vcns tenancy_two_vcns
       = vcn_resource ''vcn.a'' ''net-a'' # [vcn_resource ''vcn.b'' ''net-b'']
   \<and> import_vcn (world_answering found_result 8 15) tenancy_two_vcns (0, 0) [] =
       (Inr (0, 0),
        [Printed INFO ''Importing VCN: net-a'',
         Ran (TerraformStateShow VcnMain) (Inr found_result),
         Printed INFO ''  Already in state''])"
proof -
  let ?w = "world_answering found_result 8 15"
  have h1: "Ran (TerraformStateShow VcnMain) (Inr found_result)
     \<in> set (snd (import_existing_resources ?w tenancy_two_vcns plan_of_existing []))"
    by code_simp
  have h2: "returncode found_result = 0"
    by (simp add: found_result_def)
  have h3: "run ?w ([] @ [Printed INFO (''Importing '' @ ''AMD'' @ '' instance: ''
                             @ name (snd (amd_micro_instance ''instance.a'' ''web-1'')))])
        (TerraformStateShow (AmdInstance 0)) = Inr found_result"
    by (simp add: world_answering_def)
  have h4: "existing_vcns tenancy_two_vcns
       = (''vcn.a'', snd (vcn_resource ''vcn.a'' ''net-a'')) # [vcn_resource ''vcn.b'' ''net-b'']"
    by (simp add: tenancy_two_vcns_def vcn_resource_def)
  have h5: "run ?w ([] @ [Printed INFO (''Importing VCN: '' @ name (snd (vcn_resource ''vcn.a'' ''net-a'')))])
        (TerraformStateShow VcnMain) = Inr found_result"
    by (simp add: world_answering_def)
  have n: "name (snd (amd_micro_instance ''instance.a'' ''web-1'')) = ''web-1''"
    "name (snd (vcn_resource ''vcn.a'' ''net-a'')) = ''net-a''"
    by (simp_all add: amd_micro_instance_def vcn_resource_def)
  have v: "vcn_resource ''vcn.a'' ''net-a'' = (''vcn.a'', snd (vcn_resource ''vcn.a'' ''net-a''))"
    by (simp add: vcn_resource_def)
  note t = no_import_when_in_state [of VcnMain found_result ?w tenancy_two_vcns plan_of_existing "[]"
      "''vcn.a''" "Inr import_ok_result" "[]" "''AMD''"
      "snd (amd_micro_instance ''instance.a'' ''web-1'')" "AmdInstance 0" found_result
      "''instance.a''" "(0, 0)" "''vcn.a''" "snd (vcn_resource ''vcn.a'' ''net-a'')"
      "[vcn_resource ''vcn.b'' ''net-b'']"]
  from t h1 h2 have c1: "Ran (TerraformImport VcnMain ''vcn.a'') (Inr import_ok_result)
     \<notin> set (snd (import_existing_resources ?w tenancy_two_vcns plan_of_existing []))"
    by blast
  from t h3 h2 have c2: "import_instance ?w ''AMD'' (AmdInstance 0) ''instance.a''
        (snd (amd_micro_instance ''instance.a'' ''web-1'')) (0, 0) [] =
       (Inr (0, 0),
        [Printed INFO ''Importing AMD instance: web-1'',
         Ran (TerraformStateShow (AmdInstance 0)) (Inr found_result),
         Printed INFO ''  Already in state''])"
    by (simp add: n)
  from t h4 h5 h2 have c3: "import_vcn ?w tenancy_two_vcns (0, 0) [] =
       (Inr (0, 0),
        [Printed INFO ''Importing VCN: net-a'',
         Ran (TerraformStateShow VcnMain) (Inr found_result),
         Printed INFO ''  Already in state''])"
    by (simp add: n)
  from h1 h2 c1 h3 c2 h4 c3 v show ?thesis by simp
qed

lemma import_allowed_simps [simp]:
  "import_allowed ivt (Printed l s)" "import_allowed ivt (Slept d)" "import_allowed ivt (Called f x)"
  "import_allowed ivt (Ran TerraformInit r)" "import_allowed ivt (Ran TerraformApply r)"
  "import_allowed ivt (Ran (TerraformStateShow a) r)"
  "import_allowed ivt (Ran (TerraformImport a rid) r) \<longleftrightarrow> rid \<in> importable ivt a"
  by (simp_all add: import_allowed_def)

lemma emits_import_component:
  assumes "\<And>rid r r'. (rid, r) \<in> set items \<Longrightarrow> cond r \<Longrightarrow> Q (Ran (TerraformImport addr rid) r')"
    and "\<And>r. Q (Ran (TerraformStateShow addr) r)" and "\<And>l s. Q (Printed l s)"
  shows "emits Q (import_component w addr msg cond items)"
proof (cases "find (\<lambda>(rid, r). cond r) items")
  case None
  then show ?thesis by (simp add: import_component_def emits_pure)
next
  case (Some found)
  obtain rid r where found: "found = (rid, r)" by (cases found)
  from Some found have "(rid, r) \<in> set items" "cond r"
    by (auto simp: find_Some_iff in_set_conv_nth)
  then have "\<And>r'. Q (Ran (TerraformImport addr rid) r')" by (rule assms(1))
  with Some found assms(2,3) show ?thesis
    by (simp add: import_component_def) (intro emits_intros emits_pure; simp)
qed

lemma emits_import_vcn_components:
  assumes "vcn_id \<in> first_vcn_ids ivt"
  shows "emits (import_allowed ivt) (import_vcn_components w ivt vcn_id)"
  unfolding import_vcn_components_def
  using assms
  by (intro emits_and_then emits_import_component)
     (auto simp: children_of_first_vcn_def in_vcn_def default_in_vcn_def)

lemma emits_import_instance:
  assumes "\<And>r. Q (Ran (TerraformImport addr instance_id) r)"
    and "\<And>r. Q (Ran (TerraformStateShow addr) r)" and "\<And>l s. Q (Printed l s)"
    and "\<And>d. Q (Slept d)" and "\<And>f r. Q (Called f r)"
  shows "emits Q (import_instance w label addr instance_id inst counters)"
  unfolding import_instance_def
  by (intro emits_intros emits_pure; simp add: assms)

lemma emits_import_instances:
  assumes "\<And>i rid r. rid \<in> fst ` set items \<Longrightarrow> Q (Ran (TerraformImport (addr i) rid) r)"
    and "\<And>a r. Q (Ran (TerraformStateShow a) r)" and "\<And>l s. Q (Printed l s)"
    and "\<And>d. Q (Slept d)" and "\<And>f r. Q (Called f r)"
  shows "emits Q (import_instances w label addr instance_count items index counters)"
  using assms(1)
proof (induction items arbitrary: index counters)
  case Nil
  show ?case by (simp add: emits_pure)
next
  case (Cons item rest)
  obtain instance_id inst where item: "item = (instance_id, inst)" by (cases item)
  have here: "\<And>r. Q (Ran (TerraformImport (addr index) instance_id) r)"
    using Cons.prems [of instance_id index] item by simp
  have rest: "\<And>index counters. emits Q (import_instances w label addr instance_count rest index counters)"
    by (rule Cons.IH) (simp add: Cons.prems)
  show ?case
    unfolding item import_instances.simps
    by (intro emits_if emits_pure emits_and_then emits_import_instance here assms(2,3,4,5) rest)
qed

lemma emits_import_vcn: "emits (import_allowed ivt) (import_vcn w ivt counters)"
proof (cases "existing_vcns ivt")
  case Nil
  then show ?thesis by (simp add: import_vcn_def emits_pure)
next
  case (Cons item others)
  obtain first_vcn_id vcn where item: "item = (first_vcn_id, vcn)" by (cases item)
  with Cons have first: "first_vcn_id \<in> first_vcn_ids ivt"
    by (simp add: first_vcn_ids_def)
  show ?thesis
    using Cons item first
    by (simp add: import_vcn_def)
       (intro emits_intros emits_pure emits_import_vcn_components; simp)
qed

lemma emits_import_existing_resources:
  "emits (import_allowed ivt) (import_existing_resources w ivt cfg)"
  unfolding import_existing_resources_def init_checked_def
  by (intro emits_intros emits_pure emits_raise emits_import_vcn emits_import_instances; simp)

text \<open>
  Claim C10. Let the VCN inventory start with the key \<open>first_vcn_id\<close>. Every
  \<^verbatim>\<open>terraform import\<close> that a run of \<^verbatim>\<open>import_existing_resources\<close> issues for the VCN
  address carries \<open>first_vcn_id\<close>, so (the keys of a dictionary being distinct) none
  carries the key of a later VCN; and every import into the internet gateway, subnet,
  default route table or default security list address carries the identifier of a
  component whose recorded parent is \<open>first_vcn_id\<close>.
\<close>

theorem only_first_vcn_imported:
  assumes "existing_vcns ivt = (first_vcn_id, vcn) # others"
    and "Ran (TerraformImport addr rid) r \<in> set (snd (import_existing_resources w ivt cfg hist))"
  shows "(addr = VcnMain \<longrightarrow> rid = first_vcn_id)
       \<and> (addr = VcnMain \<and> distinct (map fst (existing_vcns ivt)) \<longrightarrow> rid \<notin> fst ` set others)
       \<and> (addr = InternetGatewayMain \<longrightarrow>
            (\<exists>c. (rid, c) \<in> set (existing_internet_gateways ivt) \<and> get_text c ''vcn_id'' = Some first_vcn_id))
       \<and> (addr = SubnetMain \<longrightarrow>
            (\<exists>c. (rid, c) \<in> set (existing_subnets ivt) \<and> get_text c ''vcn_id'' = Some first_vcn_id))
       \<and> (addr = DefaultRouteTableMain \<longrightarrow>
            (\<exists>c. (rid, c) \<in> set (existing_route_tables ivt) \<and> get_text c ''vcn_id'' = Some first_vcn_id))
       \<and> (addr = DefaultSecurityListMain \<longrightarrow>
            (\<exists>c. (rid, c) \<in> set (existing_security_lists ivt) \<and> get_text c ''vcn_id'' = Some first_vcn_id))"
proof -
  from emits_import_existing_resources [of ivt w cfg] assms(2)
  have "import_allowed ivt (Ran (TerraformImport addr rid) r)"
    unfolding emits_def by blast
  then have ok: "rid \<in> importable ivt addr" by simp
  have f: "first_vcn_ids ivt = {first_vcn_id}"
    using assms(1) by (simp add: first_vcn_ids_def)
  show ?thesis
    using ok assms(1) by (cases addr) (auto simp: f children_of_first_vcn_def)
qed

theorem only_first_vcn_imported_witness:
  "existing_vcns tenancy_two_vcns
     = (''vcn.a'', snd (vcn_resource ''vcn.a'' ''net-a'')) # [vcn_resource ''vcn.b'' ''net-b'']
   \<and> Ran (TerraformImport VcnMain ''vcn.a'') (Inr import_ok_result)
     \<in> set (snd (import_existing_resources world_nothing_in_state tenancy_two_vcns
                  plan_of_existing []))
   \<and> distinct (map fst (existing_vcns tenancy_two_vcns))
   \<and> ''vcn.a'' \<notin> fst ` set [vcn_resource ''vcn.b'' ''net-b'']
   \<and> Ran (TerraformImport VcnMain ''vcn.b'') (Inr import_ok_result)
     \<notin> set (snd (import_existing_resources world_nothing_in_state tenancy_two_vcns
                  plan_of_existing []))"
proof -
  have h1: "existing_vcns tenancy_two_vcns
     = (''vcn.a'', snd (vcn_resource ''vcn.a'' ''net-a'')) # [vcn_resource ''vcn.b'' ''net-b'']"
    by (simp add: tenancy_two_vcns_def vcn_resource_def)
  have h2: "Ran (TerraformImport VcnMain ''vcn.a'') (Inr import_ok_result)
     \<in> set (snd (import_existing_resources world_nothing_in_state tenancy_two_vcns
                  plan_of_existing []))"
    by code_simp
  have h3: "distinct (map fst (existing_vcns tenancy_two_vcns))"
    by (simp add: tenancy_two_vcns_def vcn_resource_def)
  from only_first_vcn_imported [OF h1 h2] h3
  have c1: "''vcn.a'' \<notin> fst ` set [vcn_resource ''vcn.b'' ''net-b'']"
    by blast
  have c2: "Ran (TerraformImport VcnMain ''vcn.b'') (Inr import_ok_result)
     \<notin> set (snd (import_existing_resources world_nothing_in_state tenancy_two_vcns
                  plan_of_existing []))"
  proof
    assume "Ran (TerraformImport VcnMain ''vcn.b'') (Inr import_ok_result)
     \<in> set (snd (import_existing_resources world_nothing_in_state tenancy_two_vcns
                  plan_of_existing []))"
    from only_first_vcn_imported [OF h1 this] show False by simp
  qed
  from h1 h2 h3 c1 c2 show ?thesis by blast
qed

end
